theory Spec2Isabelle
  imports Main "HOL-Library.Word" "HOL-Library.Sublist"
begin

section \<open>config/config.go: the configuration structs\<close>

text \<open>
  \<^verbatim>\<open>Duration\<close> is convertible from \<^verbatim>\<open>time.Duration\<close> (the tests write
  \<^verbatim>\<open>Duration(time.Minute)\<close>): a signed 64-bit count of nanoseconds. Additions wrap
  and comparisons are signed, as in Go. The \<^verbatim>\<open>uint32\<close> limits are 32-bit words.
\<close>

type_synonym Duration = "64 word"

definition Second :: Duration where
  "Second = 1000000000"

definition Minute :: Duration where
  "Minute = 60 * Second"

text \<open>
  Modelled from the spec: the declaration of \<^verbatim>\<open>ByteSize\<close> is not under src/. The source
  compares it with \<^verbatim>\<open>c.MaxSize <= 0\<close> and the spec speaks of negative values, so it is a
  signed number of bytes.
\<close>

type_synonym ByteSize = int

record ClusterUser =
  Name :: string
  Password :: string
  MaxConcurrentQueries :: "32 word"
  MaxExecutionTime :: Duration
  ReqPerMin :: "32 word"
  MaxQueueSize :: "32 word"
  MaxQueueTime :: Duration
  XXX :: "string list"

record Replica =
  Name :: string
  Nodes :: "string list"
  XXX :: "string list"

record KillQueryUser =
  Name :: string
  Password :: string
  XXX :: "string list"

record Cluster =
  Name :: string
  Nodes :: "string list"
  Replicas :: "Replica list"
  ClusterUsers :: "ClusterUser list"
  KillQueryUser :: KillQueryUser
  HeartBeatInterval :: Duration
  XXX :: "string list"

record User =
  Name :: string
  Password :: string
  ToCluster :: string
  ToUser :: string
  MaxConcurrentQueries :: "32 word"
  MaxExecutionTime :: Duration
  ReqPerMin :: "32 word"
  MaxQueueSize :: "32 word"
  MaxQueueTime :: Duration
  DenyHTTP :: bool
  DenyHTTPS :: bool
  AllowCORS :: bool
  Cache :: string
  Params :: string
  XXX :: "string list"

record Cache =
  Name :: string
  Dir :: string
  MaxSize :: ByteSize
  Expire :: Duration
  GraceTime :: Duration
  XXX :: "string list"

record Param =
  Key :: string
  Value :: string

record ParamGroup =
  Name :: string
  Params :: "Param list"
  XXX :: "string list"

record TimeoutCfg =
  ReadTimeout :: Duration
  WriteTimeout :: Duration
  IdleTimeout :: Duration

record HTTP =
  ListenAddr :: string
  TimeoutCfg :: TimeoutCfg
  XXX :: "string list"

record Server =
  HTTP :: HTTP
  XXX :: "string list"

record Config =
  Server :: Server
  Clusters :: "Cluster list"
  Users :: "User list"
  LogDebug :: bool
  Caches :: "Cache list"
  ParamGroups :: "ParamGroup list"
  XXX :: "string list"

subsection \<open>Zero values and the package defaults\<close>

definition zeroClusterUser :: ClusterUser where
  "zeroClusterUser = \<lparr>ClusterUser.Name = [], ClusterUser.Password = [],
     ClusterUser.MaxConcurrentQueries = 0, ClusterUser.MaxExecutionTime = 0,
     ClusterUser.ReqPerMin = 0, ClusterUser.MaxQueueSize = 0, ClusterUser.MaxQueueTime = 0,
     ClusterUser.XXX = []\<rparr>"

definition zeroKillQueryUser :: KillQueryUser where
  "zeroKillQueryUser = \<lparr>KillQueryUser.Name = [], KillQueryUser.Password = [],
     KillQueryUser.XXX = []\<rparr>"

definition zeroCluster :: Cluster where
  "zeroCluster = \<lparr>Cluster.Name = [], Cluster.Nodes = [], Replicas = [], ClusterUsers = [],
     KillQueryUser = zeroKillQueryUser, HeartBeatInterval = 0, Cluster.XXX = []\<rparr>"

definition zeroHTTP :: HTTP where
  "zeroHTTP = \<lparr>ListenAddr = [],
     TimeoutCfg = \<lparr>ReadTimeout = 0, WriteTimeout = 0, IdleTimeout = 0\<rparr>, HTTP.XXX = []\<rparr>"

definition zeroServer :: Server where
  "zeroServer = \<lparr>HTTP = zeroHTTP, Server.XXX = []\<rparr>"

definition zeroConfig :: Config where
  "zeroConfig = \<lparr>Server = zeroServer, Clusters = [], Users = [], LogDebug = False,
     Caches = [], ParamGroups = [], Config.XXX = []\<rparr>"

definition defaultClusterUser :: ClusterUser where
  "defaultClusterUser = zeroClusterUser\<lparr>ClusterUser.Name := ''default''\<rparr>"

definition defaultCluster :: Cluster where
  "defaultCluster = zeroCluster\<lparr>ClusterUsers := [defaultClusterUser]\<rparr>"

definition defaultConfig :: Config where
  "defaultConfig = zeroConfig\<lparr>Clusters := [defaultCluster]\<rparr>"

subsection \<open>The YAML document\<close>

text \<open>
  \<^verbatim>\<open>yaml.Unmarshal\<close> (gopkg.in/yaml.v2) hands every mapping node to the
  \<^verbatim>\<open>UnmarshalYAML\<close> method of its struct. The call \<^verbatim>\<open>unmarshal((*plain)(c))\<close> inside
  the method stores the value of each key that is present into its field and leaves the
  field of an absent key as it was, which is how the defaults assigned before the call
  survive. An unknown key lands in the inline map \<^verbatim>\<open>XXX\<close>.

  The model takes the document already split into nodes. A struct whose fields are all
  scalars (\<^verbatim>\<open>ClusterUser\<close>, \<^verbatim>\<open>User\<close>, \<^verbatim>\<open>Replica\<close>, \<^verbatim>\<open>KillQueryUser\<close>, \<^verbatim>\<open>Cache\<close>,
  \<^verbatim>\<open>ParamGroup\<close>) is given as the struct the plain decoding leaves, an absent key being the
  zero value and \<^verbatim>\<open>XXX\<close> holding the unknown keys. A struct with a default or with
  nested structs is given as a node whose keys are optional: \<open>None\<close> is an absent key.
  A present key with an empty or null list is \<open>Some []\<close>. Documents that are not a
  mapping of well-typed values, and duration or byte-size texts that their parsers
  reject, are the \<open>BadYaml\<close> result of reading the file.

  Where several parts of a node are invalid, yaml.v2 returns the error of the part that
  comes first in the document; the model decodes the keys in the order of the struct's
  fields, so it may name another of the errors. Whether a document is rejected does not
  depend on the order.
\<close>

record clusterNode =
  c_name :: "string option"
  c_nodes :: "string list option"
  c_replicas :: "Replica list option"
  c_users :: "ClusterUser list option"
  c_kill_query_user :: "KillQueryUser option"
  c_heartbeat_interval :: "Duration option"
  c_unknown :: "string list"

record httpNode =
  http_listen_addr :: "string option"
  http_read_timeout :: "Duration option"
  http_write_timeout :: "Duration option"
  http_idle_timeout :: "Duration option"
  http_unknown :: "string list"

record serverNode =
  srv_http :: "httpNode option"
  srv_unknown :: "string list"

record configNode =
  cfg_server :: "serverNode option"
  cfg_clusters :: "clusterNode list option"
  cfg_users :: "User list option"
  cfg_log_debug :: "bool option"
  cfg_caches :: "Cache list option"
  cfg_param_groups :: "ParamGroup list option"
  cfg_unknown :: "string list"

datatype fileResult = NoFile string | BadYaml string | Doc configNode

type_synonym fileSystem = "string \<Rightarrow> fileResult"

subsection \<open>Errors\<close>

datatype overflowCtx =
    InConfig | InServer | InHTTP | InCluster string | InReplica string | InKillQueryUser
  | InUser string | InCache string | InParamGroup string | InClusterUser string

datatype cfgError =
    ReadFileError string
  | YamlError string
  | UsersEmpty
  | ClustersEmpty
  | HTTPNotConfigured
  | ClusterNameEmpty
  | NodesOrReplicasUnset string
  | NodesAndReplicasSet string
  | ClusterUsersEmpty string
  | ReplicaNameEmpty
  | ReplicaNodesEmpty string
  | KillQueryUserNameEmpty
  | UserNameEmpty
  | ToUserEmpty string
  | ToClusterEmpty string
  | DenyHTTPAndHTTPS string
  | MaxQueueSizeUnset string
  | ClusterUserNameEmpty
  | CacheNameEmpty
  | CacheDirEmpty string
  | CacheMaxSizeUnset string
  | ParamGroupNameEmpty
  | ParamGroupParamsEmpty
  | UnknownFields overflowCtx "string list"

text \<open>
  Modelled from the spec: \<^verbatim>\<open>checkOverflow\<close> is not under src/. The spec (section 9) has
  the loader fail when a node has a key that its struct does not know; the test expects
  \<^verbatim>\<open>unknown fields in cluster "second cluster": unknown_field\<close>.
\<close>

definition checkOverflow :: "string list \<Rightarrow> overflowCtx \<Rightarrow> cfgError option" where
  "checkOverflow xxx ctx = (if xxx = [] then None else Some (UnknownFields ctx xxx))"

definition andThen :: "'e + 'a \<Rightarrow> ('a \<Rightarrow> 'e + 'b) \<Rightarrow> 'e + 'b" where
  "andThen r f = (case r of Inl e \<Rightarrow> Inl e | Inr v \<Rightarrow> f v)"

definition finish :: "cfgError option \<Rightarrow> 'a \<Rightarrow> cfgError + 'a" where
  "finish r v = (case r of Some e \<Rightarrow> Inl e | None \<Rightarrow> Inr v)"

text \<open>A sequence node: each element through its \<^verbatim>\<open>UnmarshalYAML\<close>, the first error ends
  the decoding.\<close>

fun decodeSeq :: "('a \<Rightarrow> cfgError + 'b) \<Rightarrow> 'a list \<Rightarrow> cfgError + 'b list" where
  "decodeSeq f [] = Inr []"
| "decodeSeq f (x # xs) =
     (case f x of
        Inl e \<Rightarrow> Inl e
      | Inr y \<Rightarrow> (case decodeSeq f xs of Inl e \<Rightarrow> Inl e | Inr ys \<Rightarrow> Inr (y # ys)))"

definition keyOr :: "'a option \<Rightarrow> 'a \<Rightarrow> 'a" where
  "keyOr k field = (case k of None \<Rightarrow> field | Some v \<Rightarrow> v)"

definition decodeKey :: "('a \<Rightarrow> cfgError + 'b) \<Rightarrow> 'a option \<Rightarrow> 'b \<Rightarrow> cfgError + 'b" where
  "decodeKey f k field = (case k of None \<Rightarrow> Inr field | Some n \<Rightarrow> f n)"

subsection \<open>The UnmarshalYAML methods\<close>

definition ClusterUser_UnmarshalYAML :: "ClusterUser \<Rightarrow> cfgError + ClusterUser" where
  "ClusterUser_UnmarshalYAML cu =
     (if ClusterUser.Name cu = [] then Inl ClusterUserNameEmpty
      else if 0 <s ClusterUser.MaxQueueTime cu \<and> ClusterUser.MaxQueueSize cu = 0
        then Inl (MaxQueueSizeUnset (ClusterUser.Name cu))
      else finish (checkOverflow (ClusterUser.XXX cu) (InClusterUser (ClusterUser.Name cu))) cu)"

definition Replica_UnmarshalYAML :: "Replica \<Rightarrow> cfgError + Replica" where
  "Replica_UnmarshalYAML r =
     (if Replica.Name r = [] then Inl ReplicaNameEmpty
      else if Replica.Nodes r = [] then Inl (ReplicaNodesEmpty (Replica.Name r))
      else finish (checkOverflow (Replica.XXX r) (InReplica (Replica.Name r))) r)"

definition KillQueryUser_UnmarshalYAML :: "KillQueryUser \<Rightarrow> cfgError + KillQueryUser" where
  "KillQueryUser_UnmarshalYAML u =
     (if KillQueryUser.Name u = [] then Inl KillQueryUserNameEmpty
      else finish (checkOverflow (KillQueryUser.XXX u) InKillQueryUser) u)"

definition User_UnmarshalYAML :: "User \<Rightarrow> cfgError + User" where
  "User_UnmarshalYAML u =
     (if User.Name u = [] then Inl UserNameEmpty
      else if ToUser u = [] then Inl (ToUserEmpty (User.Name u))
      else if ToCluster u = [] then Inl (ToClusterEmpty (User.Name u))
      else if DenyHTTP u \<and> DenyHTTPS u then Inl (DenyHTTPAndHTTPS (User.Name u))
      else if 0 <s User.MaxQueueTime u \<and> User.MaxQueueSize u = 0
        then Inl (MaxQueueSizeUnset (User.Name u))
      else finish (checkOverflow (User.XXX u) (InUser (User.Name u))) u)"

definition Cache_UnmarshalYAML :: "Cache \<Rightarrow> cfgError + Cache" where
  "Cache_UnmarshalYAML c =
     (if Cache.Name c = [] then Inl CacheNameEmpty
      else if Dir c = [] then Inl (CacheDirEmpty (Cache.Name c))
      else if MaxSize c \<le> 0 then Inl (CacheMaxSizeUnset (Cache.Name c))
      else finish (checkOverflow (Cache.XXX c) (InCache (Cache.Name c))) c)"

definition ParamGroup_UnmarshalYAML :: "ParamGroup \<Rightarrow> cfgError + ParamGroup" where
  "ParamGroup_UnmarshalYAML pg =
     (if ParamGroup.Name pg = [] then Inl ParamGroupNameEmpty
      else if ParamGroup.Params pg = [] then Inl ParamGroupParamsEmpty
      else finish (checkOverflow (ParamGroup.XXX pg) (InParamGroup (ParamGroup.Name pg))) pg)"

text \<open>\<^verbatim>\<open>*c = defaultCluster\<close>, then the plain decoding of the node onto \<open>c\<close>.\<close>

definition Cluster_plain :: "clusterNode \<Rightarrow> cfgError + Cluster" where
  "Cluster_plain n =
     andThen (decodeKey (decodeSeq Replica_UnmarshalYAML) (c_replicas n) (Replicas defaultCluster))
       (\<lambda>rs. andThen (decodeKey (decodeSeq ClusterUser_UnmarshalYAML) (c_users n)
                        (ClusterUsers defaultCluster))
       (\<lambda>us. andThen (decodeKey KillQueryUser_UnmarshalYAML (c_kill_query_user n)
                        (KillQueryUser defaultCluster))
       (\<lambda>k. Inr \<lparr>Cluster.Name = keyOr (c_name n) (Cluster.Name defaultCluster),
                 Cluster.Nodes = keyOr (c_nodes n) (Cluster.Nodes defaultCluster),
                 Replicas = rs, ClusterUsers = us, KillQueryUser = k,
                 HeartBeatInterval =
                   keyOr (c_heartbeat_interval n) (HeartBeatInterval defaultCluster),
                 Cluster.XXX = c_unknown n\<rparr>)))"

definition Cluster_UnmarshalYAML :: "clusterNode \<Rightarrow> cfgError + Cluster" where
  "Cluster_UnmarshalYAML n =
     andThen (Cluster_plain n)
       (\<lambda>c. if Cluster.Name c = [] then Inl ClusterNameEmpty
            else if Cluster.Nodes c = [] \<and> Replicas c = []
              then Inl (NodesOrReplicasUnset (Cluster.Name c))
            else if Cluster.Nodes c \<noteq> [] \<and> Replicas c \<noteq> []
              then Inl (NodesAndReplicasSet (Cluster.Name c))
            else if ClusterUsers c = [] then Inl (ClusterUsersEmpty (Cluster.Name c))
            else
              (let c' = (if HeartBeatInterval c = 0
                         then c\<lparr>HeartBeatInterval := 5 * Second\<rparr> else c)
               in finish (checkOverflow (Cluster.XXX c') (InCluster (Cluster.Name c'))) c'))"

definition HTTP_UnmarshalYAML :: "httpNode \<Rightarrow> cfgError + HTTP" where
  "HTTP_UnmarshalYAML n =
     (let t = \<lparr>ReadTimeout = keyOr (http_read_timeout n) 0,
                WriteTimeout = keyOr (http_write_timeout n) 0,
                IdleTimeout = keyOr (http_idle_timeout n) 0\<rparr>;
          t1 = (if ReadTimeout t = 0 then t\<lparr>ReadTimeout := Minute\<rparr> else t);
          t2 = (if IdleTimeout t1 = 0 then t1\<lparr>IdleTimeout := Minute * 10\<rparr> else t1);
          c = \<lparr>ListenAddr = keyOr (http_listen_addr n) [], TimeoutCfg = t2,
               HTTP.XXX = http_unknown n\<rparr>
      in finish (checkOverflow (HTTP.XXX c) InHTTP) c)"

definition Server_UnmarshalYAML :: "serverNode \<Rightarrow> cfgError + Server" where
  "Server_UnmarshalYAML n =
     andThen (decodeKey HTTP_UnmarshalYAML (srv_http n) zeroHTTP)
       (\<lambda>h. let s = \<lparr>HTTP = h, Server.XXX = srv_unknown n\<rparr>
            in finish (checkOverflow (Server.XXX s) InServer) s)"

text \<open>\<^verbatim>\<open>*c = defaultConfig\<close>, then the plain decoding of the document onto \<open>c\<close>.\<close>

definition Config_plain :: "configNode \<Rightarrow> cfgError + Config" where
  "Config_plain d =
     andThen (decodeKey Server_UnmarshalYAML (cfg_server d) (Server defaultConfig))
       (\<lambda>s. andThen (decodeKey (decodeSeq Cluster_UnmarshalYAML) (cfg_clusters d)
                       (Clusters defaultConfig))
       (\<lambda>cs. andThen (decodeKey (decodeSeq User_UnmarshalYAML) (cfg_users d)
                       (Users defaultConfig))
       (\<lambda>us. andThen (decodeKey (decodeSeq Cache_UnmarshalYAML) (cfg_caches d)
                       (Caches defaultConfig))
       (\<lambda>cas. andThen (decodeKey (decodeSeq ParamGroup_UnmarshalYAML) (cfg_param_groups d)
                       (ParamGroups defaultConfig))
       (\<lambda>pgs. Inr \<lparr>Server = s, Clusters = cs, Users = us,
                   LogDebug = keyOr (cfg_log_debug d) (LogDebug defaultConfig),
                   Caches = cas, ParamGroups = pgs, Config.XXX = cfg_unknown d\<rparr>)))))"

definition Config_UnmarshalYAML :: "configNode \<Rightarrow> cfgError + Config" where
  "Config_UnmarshalYAML d =
     andThen (Config_plain d)
       (\<lambda>c. if Users c = [] then Inl UsersEmpty
            else if Clusters c = [] then Inl ClustersEmpty
            else if ListenAddr (HTTP (Server c)) = [] then Inl HTTPNotConfigured
            else finish (checkOverflow (Config.XXX c) InConfig) c)"

subsection \<open>LoadFile\<close>

text \<open>One turn of either loop of \<^verbatim>\<open>LoadFile\<close>: \<^verbatim>\<open>cud := MaxExecutionTime + MaxQueueTime\<close>,
  kept when \<^verbatim>\<open>cud > maxResponseTime\<close>.\<close>

definition longer :: "Duration \<Rightarrow> Duration \<Rightarrow> Duration \<Rightarrow> Duration" where
  "longer maxResponseTime met mqt =
     (let cud = met + mqt in if maxResponseTime <s cud then cud else maxResponseTime)"

definition clusterUsersLoop :: "Duration \<Rightarrow> ClusterUser list \<Rightarrow> Duration" where
  "clusterUsersLoop =
     foldl (\<lambda>m u. longer m (ClusterUser.MaxExecutionTime u) (ClusterUser.MaxQueueTime u))"

definition clustersLoop :: "Duration \<Rightarrow> Cluster list \<Rightarrow> Duration" where
  "clustersLoop = foldl (\<lambda>m c. clusterUsersLoop m (ClusterUsers c))"

definition usersLoop :: "Duration \<Rightarrow> User list \<Rightarrow> Duration" where
  "usersLoop = foldl (\<lambda>m u. longer m (User.MaxExecutionTime u) (User.MaxQueueTime u))"

definition maxResponseTime :: "Config \<Rightarrow> Duration" where
  "maxResponseTime cfg =
     (let m = usersLoop (clustersLoop 0 (Clusters cfg)) (Users cfg);
          m' = (if m <s 0 then 0 else m)
      in m' + Minute)"

definition setWriteTimeout :: "Config \<Rightarrow> Config" where
  "setWriteTimeout cfg =
     (if ListenAddr (HTTP (Server cfg)) \<noteq> [] \<and> WriteTimeout (TimeoutCfg (HTTP (Server cfg))) = 0
      then cfg\<lparr>Server := (Server cfg)\<lparr>HTTP := (HTTP (Server cfg))\<lparr>TimeoutCfg :=
             (TimeoutCfg (HTTP (Server cfg)))\<lparr>WriteTimeout := maxResponseTime cfg\<rparr>\<rparr>\<rparr>\<rparr>
      else cfg)"

definition LoadFile :: "fileSystem \<Rightarrow> string \<Rightarrow> cfgError + Config" where
  "LoadFile fs filename =
     (case fs filename of
        NoFile e \<Rightarrow> Inl (ReadFileError e)
      | BadYaml e \<Rightarrow> Inl (YamlError e)
      | Doc d \<Rightarrow> andThen (Config_UnmarshalYAML d) (\<lambda>cfg. Inr (setWriteTimeout cfg)))"

section \<open>main.go\<close>

subsection \<open>The HTTP handler\<close>

text \<open>
  What \<^verbatim>\<open>serveHTTP\<close> reads of a request, and the \<^verbatim>\<open>http.ResponseWriter\<close> it writes
  to: the header map (\<^verbatim>\<open>Header().Set\<close> stores one value under the key), the status code
  (\<open>None\<close> until \<^verbatim>\<open>WriteHeader\<close> is called; net/http then sends 200) and the body
  written so far.
\<close>

record request =
  Method :: string
  Path :: string
  RemoteAddr :: string

record responseWriter =
  header :: "string \<rightharpoonup> string"
  status :: "nat option"
  body :: string

definition newResponseWriter :: responseWriter where
  "newResponseWriter = \<lparr>header = Map.empty, status = None, body = []\<rparr>"

definition statusCode :: "responseWriter \<Rightarrow> nat" where
  "statusCode rw = (case status rw of None \<Rightarrow> 200 | Some c \<Rightarrow> c)"

definition headerSet :: "string \<Rightarrow> string \<Rightarrow> responseWriter \<Rightarrow> responseWriter" where
  "headerSet k v rw = rw\<lparr>header := (header rw)(k \<mapsto> v)\<rparr>"

definition StatusBadRequest :: nat where
  "StatusBadRequest = 400"

definition StatusMethodNotAllowed :: nat where
  "StatusMethodNotAllowed = 405"

text \<open>
  Modelled from the spec: \<^verbatim>\<open>respondWith\<close> is not under src/. By the scenarios S2 and S3
  of the spec the response carries the given status code and a body with the text of the
  error.
\<close>

definition respondWith :: "responseWriter \<Rightarrow> string \<Rightarrow> nat \<Rightarrow> responseWriter" where
  "respondWith rw err code =
     rw\<lparr>status := (case status rw of None \<Rightarrow> Some code | Some c \<Rightarrow> Some c),
        body := body rw @ err\<rparr>"

text \<open>
  The state of the process: the flags, the global \<^verbatim>\<open>proxy\<close> (its type and its methods
  are not under src/, so it is a type parameter), the configurations handed to
  \<^verbatim>\<open>proxy.applyConfig\<close> so far (oldest first), the log, the debug switch of the logger and
  the metrics \<^verbatim>\<open>configSuccess\<close>, \<^verbatim>\<open>configSuccessTime\<close> and \<^verbatim>\<open>badRequest\<close>.
\<close>

datatype mainError = CantLoadConfig string cfgError | ApplyError string

datatype logEntry =
    InfoVersion
  | InfoLoadingConfig string
  | InfoLoadingSuccessful string
  | InfoSighupReceived string
  | InfoReloadingSuccessful string
  | InfoLoadedConfig Config
  | ErrorReloading mainError
  | FatalMissingConfigFlag
  | FatalLoading mainError
  | FatalApplying mainError

record 'p process =
  configFile :: string
  version :: bool
  proxy :: 'p
  applied :: "Config list"
  logs :: "logEntry list"
  logDebug :: bool
  configSuccess :: int
  configSuccessTime :: int
  badRequest :: nat

text \<open>
  What main.go calls and src/ does not hold: the methods of the proxy, the Prometheus
  handler, and the verb \<^verbatim>\<open>%q\<close> of package fmt (\<^verbatim>\<open>strconv.Quote\<close>), which depends on
  the Unicode tables. On a string of printable ASCII characters without a double quote
  or a backslash, \<^verbatim>\<open>%q\<close> writes the string between double quotes: \<open>dquote\<close>.
\<close>

record 'p externals =
  quote :: "string \<Rightarrow> string"
  proxyApplyConfig :: "Config \<Rightarrow> 'p \<Rightarrow> string option \<times> 'p"
  proxyRefreshCacheMetrics :: "'p \<Rightarrow> 'p"
  proxyServeHTTP :: "request \<Rightarrow> responseWriter \<Rightarrow> 'p \<Rightarrow> responseWriter \<times> 'p"
  promHandlerServeHTTP :: "request \<Rightarrow> responseWriter \<Rightarrow> responseWriter"

definition dquote :: "string \<Rightarrow> string" where
  "dquote s = [CHR 0x22] @ s @ [CHR 0x22]"

text \<open>The second \<^verbatim>\<open>switch\<close> of \<^verbatim>\<open>serveHTTP\<close>, on \<^verbatim>\<open>r.URL.Path\<close>.\<close>

definition pathDispatch ::
  "'p externals \<Rightarrow> request \<Rightarrow> responseWriter \<Rightarrow> 'p process \<Rightarrow> responseWriter \<times> 'p process" where
  "pathDispatch e r rw w =
     (if Path r = ''/favicon.ico'' then (rw, w)
      else if Path r = ''/metrics'' then
        (promHandlerServeHTTP e r rw, w\<lparr>proxy := proxyRefreshCacheMetrics e (proxy w)\<rparr>)
      else if Path r = ''/'' then
        (case proxyServeHTTP e r rw (proxy w) of (rw', p') \<Rightarrow> (rw', w\<lparr>proxy := p'\<rparr>))
      else
        (respondWith (headerSet ''Connection'' ''close'' rw)
           (quote e (RemoteAddr r) @ '': unsupported path: '' @ quote e (Path r))
           StatusBadRequest,
         w\<lparr>badRequest := badRequest w + 1\<rparr>))"

text \<open>\<^verbatim>\<open>serveHTTP\<close>: the \<^verbatim>\<open>switch\<close> on \<^verbatim>\<open>r.Method\<close>, then the one on the path.\<close>

definition serveHTTP ::
  "'p externals \<Rightarrow> request \<Rightarrow> responseWriter \<Rightarrow> 'p process \<Rightarrow> responseWriter \<times> 'p process" where
  "serveHTTP e r rw w =
     (if Method r = ''GET'' \<or> Method r = ''POST'' then pathDispatch e r rw w
      else if Method r = ''OPTIONS'' then (headerSet ''Allow'' ''GET,POST'' rw, w)
      else
        (respondWith (headerSet ''Connection'' ''close'' rw)
           (quote e (RemoteAddr r) @ '': unsupported method '' @ quote e (Method r))
           StatusMethodNotAllowed,
         w))"

subsection \<open>Loading, applying and reloading the configuration\<close>

text \<open>\<^verbatim>\<open>log.Fatalf\<close> ends the process: a function that may call it returns \<open>Exit\<close> with
  the state at that moment, or \<open>Return\<close> with its result and the new state.\<close>

datatype ('a, 'w) run = Exit 'w | Return 'a 'w

definition logf :: "logEntry \<Rightarrow> 'p process \<Rightarrow> 'p process" where
  "logf l w = w\<lparr>logs := logs w @ [l]\<rparr>"

definition loadConfig ::
  "fileSystem \<Rightarrow> int \<Rightarrow> 'p process \<Rightarrow> (mainError + Config, 'p process) run" where
  "loadConfig fs now w =
     (if configFile w = [] then Exit (logf FatalMissingConfigFlag w)
      else
        (case LoadFile fs (configFile w) of
           Inl err \<Rightarrow> Return (Inl (CantLoadConfig (configFile w) err)) (w\<lparr>configSuccess := 0\<rparr>)
         | Inr cfg \<Rightarrow> Return (Inr cfg) (w\<lparr>configSuccess := 1, configSuccessTime := now\<rparr>)))"

definition applyConfig ::
  "'p externals \<Rightarrow> Config \<Rightarrow> 'p process \<Rightarrow> mainError option \<times> 'p process" where
  "applyConfig e cfg w =
     (case proxyApplyConfig e cfg (proxy w) of
        (Some err, p') \<Rightarrow> (Some (ApplyError err), w\<lparr>proxy := p', applied := applied w @ [cfg]\<rparr>)
      | (None, p') \<Rightarrow>
          (None, logf (InfoLoadedConfig cfg)
                   (w\<lparr>proxy := p', applied := applied w @ [cfg], logDebug := LogDebug cfg\<rparr>)))"

definition reloadConfig ::
  "'p externals \<Rightarrow> fileSystem \<Rightarrow> int \<Rightarrow> 'p process \<Rightarrow> (mainError option, 'p process) run" where
  "reloadConfig e fs now w =
     (case loadConfig fs now w of
        Exit w' \<Rightarrow> Exit w'
      | Return (Inl err) w' \<Rightarrow> Return (Some err) w'
      | Return (Inr cfg) w' \<Rightarrow> (case applyConfig e cfg w' of (r, w'') \<Rightarrow> Return r w''))"

text \<open>\<^verbatim>\<open>main\<close> up to the start of the signal handler: the result is the configuration
  that the server is started with.\<close>

definition mainStart ::
  "'p externals \<Rightarrow> fileSystem \<Rightarrow> int \<Rightarrow> 'p process \<Rightarrow> (Config, 'p process) run" where
  "mainStart e fs now w =
     (if version w then Exit w
      else
        (case loadConfig fs now (logf (InfoLoadingConfig (configFile w)) (logf InfoVersion w)) of
           Exit w' \<Rightarrow> Exit w'
         | Return (Inl err) w' \<Rightarrow> Exit (logf (FatalLoading err) w')
         | Return (Inr cfg) w' \<Rightarrow>
             (case applyConfig e cfg w' of
                (Some err, w'') \<Rightarrow> Exit (logf (FatalApplying err) w'')
              | (None, w'') \<Rightarrow> Return cfg (logf (InfoLoadingSuccessful (configFile w)) w''))))"



section \<open>Durations\<close>

text \<open>
  The type \<^verbatim>\<open>Duration\<close> parses and prints itself in a file of package config that is not
  under src/; src/ holds its tests (\<^verbatim>\<open>TestParseDuration\<close>,
  \<^verbatim>\<open>TestParseDurationNegative\<close>). The definitions of this section follow the spec. The
  spec bounds no number, so a parsed value is an integer, not an \<^verbatim>\<open>int64\<close>.

  The parser of \<^verbatim>\<open>ByteSize\<close> is not under src/ either and is not modelled: the spec
  gives its suffixes a decimal meaning, while \<^verbatim>\<open>TestLoadConfig\<close> expects sizes of
  \<^verbatim>\<open>100 << 30\<close> and \<^verbatim>\<open>100 << 20\<close> bytes and the error text of \<^verbatim>\<open>TestBadConfig\<close> speaks of
  fractions such as \<^verbatim>\<open>1.5Gb\<close>, from files and code that src/ does not hold.
\<close>

subsection \<open>Decimal numerals\<close>

definition isDigit :: "char \<Rightarrow> bool" where
  "isDigit c \<longleftrightarrow> 48 \<le> (of_char c :: nat) \<and> (of_char c :: nat) \<le> 57"

definition digitVal :: "char \<Rightarrow> nat" where
  "digitVal c = of_char c - 48"

definition digitChar :: "nat \<Rightarrow> char" where
  "digitChar n = char_of (48 + n)"

definition natOfDigits :: "string \<Rightarrow> nat" where
  "natOfDigits = foldl (\<lambda>n c. 10 * n + digitVal c) 0"

fun showNat :: "nat \<Rightarrow> string" where
  "showNat n = (if n < 10 then [digitChar n] else showNat (n div 10) @ [digitChar (n mod 10)])"

declare showNat.simps [simp del]

definition showInt :: "int \<Rightarrow> string" where
  "showInt i = (if i < 0 then CHR ''-'' # showNat (nat (- i)) else showNat (nat i))"

subsection \<open>Durations\<close>

text \<open>
  Modelled from the spec: the units of a duration text are not under src/. By the spec
  they are ns, \<open>\<mu>\<close>s, ms, s, m, h, d and w (the micro sign is two bytes in UTF-8), with d
  for 24 hours and w for 7 days (\<^verbatim>\<open>TestParseDuration\<close>). The values are nanoseconds.
\<close>

definition durationUnits :: "(string \<times> int) list" where
  "durationUnits =
     [(''ns'', 1),
      ([CHR 0xC2, CHR 0xB5, CHR ''s''], 1000),
      (''ms'', 1000000),
      (''s'', 1000000000),
      (''m'', 60000000000),
      (''h'', 3600000000000),
      (''d'', 24 * 3600000000000),
      (''w'', 7 * (24 * 3600000000000))]"

datatype durationError = NotValidDuration string

text \<open>
  Modelled from the spec: \<^verbatim>\<open>parseDuration\<close> is not under src/. By the spec a duration is
  a non-negative integer and one unit, with no fraction and no second unit; any other
  text gets the error \<^verbatim>\<open>not a valid duration string: "<s>"\<close>, here
  \<open>NotValidDuration s\<close>.
\<close>

definition parseDuration :: "string \<Rightarrow> durationError + int" where
  "parseDuration s =
     (let ds = takeWhile isDigit s; u = dropWhile isDigit s
      in if ds = [] then Inl (NotValidDuration s)
         else (case map_of durationUnits u of
                 None \<Rightarrow> Inl (NotValidDuration s)
               | Some k \<Rightarrow> Inr (int (natOfDigits ds) * k)))"

text \<open>The accepted grammar in the words of the spec: digits, at least one, directly
  followed by one unit.\<close>

definition durationGrammar :: "string \<Rightarrow> bool" where
  "durationGrammar s \<longleftrightarrow>
     (\<exists>ds u. ds \<noteq> [] \<and> list_all isDigit ds \<and> u \<in> fst ` set durationUnits \<and> s = ds @ u)"

text \<open>
  Modelled from the spec: \<^verbatim>\<open>Duration.String\<close> is not under src/. The spec asks that
  parsing what it prints gives the value back, and \<^verbatim>\<open>TestParseDuration\<close> expects it to
  print 10ns, 20\<open>\<mu>\<close>s, 30ms, 40s, 50m, 60h, 75d and 80w for the values of these texts:
  the value in the largest unit that divides it.
\<close>

definition Duration_String :: "int \<Rightarrow> string" where
  "Duration_String d =
     (case find (\<lambda>p. d mod snd p = 0) (rev durationUnits) of
        Some p \<Rightarrow> showInt (d div snd p) @ fst p
      | None \<Rightarrow> showInt d @ ''ns'')"

section \<open>The response times of a configuration\<close>

text \<open>
  The pairs \<^verbatim>\<open>(MaxExecutionTime, MaxQueueTime)\<close> in the order in which the two loops of
  \<^verbatim>\<open>LoadFile\<close> visit them: the users of every cluster, then the users. \<open>responseTimes\<close>
  are their sums as integers, without the wrap-around of \<^verbatim>\<open>int64\<close>. A pair is in range
  when both values are non-negative and their sum plus one minute is below \<open>2^63\<close>
  nanoseconds, so that no addition of \<^verbatim>\<open>LoadFile\<close> wraps.
\<close>

definition timePairs :: "Config \<Rightarrow> (Duration \<times> Duration) list" where
  "timePairs cfg =
     concat (map (\<lambda>c. map (\<lambda>u. (ClusterUser.MaxExecutionTime u, ClusterUser.MaxQueueTime u))
                         (ClusterUsers c)) (Clusters cfg))
     @ map (\<lambda>u. (User.MaxExecutionTime u, User.MaxQueueTime u)) (Users cfg)"

definition responseTimes :: "Config \<Rightarrow> int list" where
  "responseTimes cfg = map (\<lambda>p. sint (fst p) + sint (snd p)) (timePairs cfg)"

definition inRange :: "Duration \<times> Duration \<Rightarrow> bool" where
  "inRange p \<longleftrightarrow> 0 \<le> sint (fst p) \<and> 0 \<le> sint (snd p)
     \<and> sint (fst p) + sint (snd p) + 60000000000 < 2 ^ 63"

definition longerAll :: "Duration \<Rightarrow> (Duration \<times> Duration) list \<Rightarrow> Duration" where
  "longerAll = foldl (\<lambda>m p. longer m (fst p) (snd p))"

section \<open>Test data\<close>

text \<open>
  The inputs of the tests under src/, used to run the model. The YAML files of
  \<^verbatim>\<open>testdata/\<close> are not under src/: \<open>default_values_yml\<close> is the smallest document
  that \<^verbatim>\<open>TestLoadConfig\<close> ("default values") can expect \<open>default_values_cfg\<close> from.
\<close>

definition default_values_cluster :: clusterNode where
  "default_values_cluster =
     \<lparr>c_name = Some ''cluster'', c_nodes = Some [''127.0.0.1:8123''], c_replicas = None,
      c_users = None, c_kill_query_user = None, c_heartbeat_interval = None, c_unknown = []\<rparr>"

definition default_values_user :: User where
  "default_values_user =
     \<lparr>User.Name = ''default'', User.Password = [], ToCluster = ''cluster'',
      ToUser = ''default'', User.MaxConcurrentQueries = 0, User.MaxExecutionTime = 0,
      User.ReqPerMin = 0, User.MaxQueueSize = 0, User.MaxQueueTime = 0, DenyHTTP = False,
      DenyHTTPS = False, AllowCORS = False, Cache = [], User.Params = [], User.XXX = []\<rparr>"

definition default_values_yml :: configNode where
  "default_values_yml =
     \<lparr>cfg_server = Some \<lparr>srv_http = Some \<lparr>http_listen_addr = Some '':8080'',
          http_read_timeout = None, http_write_timeout = None, http_idle_timeout = None,
          http_unknown = []\<rparr>, srv_unknown = []\<rparr>,
      cfg_clusters = Some [default_values_cluster],
      cfg_users = Some [default_values_user],
      cfg_log_debug = None, cfg_caches = None, cfg_param_groups = None, cfg_unknown = []\<rparr>"

text \<open>A document as \<^verbatim>\<open>testdata/timeouts.write.calculated.yml\<close> must be for
  \<^verbatim>\<open>TestConfigTimeouts\<close> ("10 + 1 minute"): one user with a \<^verbatim>\<open>max_execution_time\<close> of
  ten minutes.\<close>

definition calculated_user :: User where
  "calculated_user = default_values_user\<lparr>User.MaxExecutionTime := 10 * Minute\<rparr>"

definition calculated_yml :: configNode where
  "calculated_yml = default_values_yml\<lparr>cfg_users := Some [calculated_user]\<rparr>"

text \<open>A document whose user has \<^verbatim>\<open>max_execution_time: 7626w\<close>, \<^verbatim>\<open>max_queue_time: 7626w\<close>
  and \<^verbatim>\<open>max_queue_size: 1\<close>. Each duration is below \<open>2^63\<close> nanoseconds, their sum is
  not.\<close>

definition weeks7626 :: Duration where
  "weeks7626 = 7626 * (7 * (24 * (60 * Minute)))"

definition overflow_user :: User where
  "overflow_user = default_values_user\<lparr>User.MaxExecutionTime := weeks7626,
     User.MaxQueueSize := 1, User.MaxQueueTime := weeks7626\<rparr>"

definition overflow_yml :: configNode where
  "overflow_yml = default_values_yml\<lparr>cfg_users := Some [overflow_user]\<rparr>"

text \<open>The document \<open>default_values_yml\<close> without its key \<^verbatim>\<open>clusters\<close>.\<close>

definition no_clusters_yml :: configNode where
  "no_clusters_yml = default_values_yml\<lparr>cfg_clusters := None\<rparr>"

definition testFiles :: fileSystem where
  "testFiles name =
     (if name = ''testdata/default_values.yml'' then Doc default_values_yml
      else if name = ''testdata/timeouts.write.calculated.yml'' then Doc calculated_yml
      else if name = ''overflow.yml'' then Doc overflow_yml
      else if name = ''no_clusters.yml'' then Doc no_clusters_yml
      else NoFile ''no such file or directory'')"

definition testExternals :: "unit externals" where
  "testExternals =
     \<lparr>quote = dquote,
      proxyApplyConfig = (\<lambda>cfg p. (None, p)),
      proxyRefreshCacheMetrics = (\<lambda>p. p),
      proxyServeHTTP = (\<lambda>r rw p. (rw\<lparr>body := body rw @ ''Ok.''\<rparr>, p)),
      promHandlerServeHTTP = (\<lambda>r rw. rw)\<rparr>"

definition testProcess :: "string \<Rightarrow> unit process" where
  "testProcess file =
     \<lparr>configFile = file, version = False, proxy = (), applied = [], logs = [],
      logDebug = False, configSuccess = 0, configSuccessTime = 0, badRequest = 0\<rparr>"

definition default_values_cfg :: Config where
  "default_values_cfg =
     \<lparr>Server = \<lparr>HTTP = \<lparr>ListenAddr = '':8080'',
          TimeoutCfg = \<lparr>ReadTimeout = Minute, WriteTimeout = Minute, IdleTimeout = 10 * Minute\<rparr>,
          HTTP.XXX = []\<rparr>, Server.XXX = []\<rparr>,
      Clusters = [\<lparr>Cluster.Name = ''cluster'', Cluster.Nodes = [''127.0.0.1:8123''],
          Replicas = [],
          ClusterUsers = [zeroClusterUser\<lparr>ClusterUser.Name := ''default''\<rparr>],
          KillQueryUser = zeroKillQueryUser, HeartBeatInterval = 5 * Second,
          Cluster.XXX = []\<rparr>],
      Users = [default_values_user],
      LogDebug = False, Caches = [], ParamGroups = [], Config.XXX = []\<rparr>"

definition calculated_cfg :: Config where
  "calculated_cfg =
     default_values_cfg
       \<lparr>Server := \<lparr>HTTP = \<lparr>ListenAddr = '':8080'',
          TimeoutCfg = \<lparr>ReadTimeout = Minute, WriteTimeout = 11 * Minute,
                        IdleTimeout = 10 * Minute\<rparr>,
          HTTP.XXX = []\<rparr>, Server.XXX = []\<rparr>,
        Users := [calculated_user]\<rparr>"

definition overflow_cfg :: Config where
  "overflow_cfg = default_values_cfg\<lparr>Users := [overflow_user]\<rparr>"

definition no_clusters_cfg :: Config where
  "no_clusters_cfg = default_values_cfg\<lparr>Clusters := [defaultCluster]\<rparr>"

definition startedProcess :: "unit process" where
  "startedProcess =
     (testProcess ''testdata/default_values.yml'')
       \<lparr>applied := [default_values_cfg],
        logs := [InfoVersion, InfoLoadingConfig ''testdata/default_values.yml'',
                 InfoLoadedConfig default_values_cfg,
                 InfoLoadingSuccessful ''testdata/default_values.yml''],
        configSuccess := 1\<rparr>"

definition reloadedProcess :: "unit process" where
  "reloadedProcess =
     startedProcess
       \<lparr>applied := [default_values_cfg, default_values_cfg],
        logs := logs startedProcess @ [InfoLoadedConfig default_values_cfg],
        configSuccessTime := 5\<rparr>"


definition request_CONNECT :: request where
  "request_CONNECT = \<lparr>Method = ''CONNECT'', Path = ''/'', RemoteAddr = ''127.0.0.1:51234''\<rparr>"

definition request_OPTIONS :: request where
  "request_OPTIONS = \<lparr>Method = ''OPTIONS'', Path = ''/'', RemoteAddr = ''127.0.0.1:51234''\<rparr>"

definition request_GET :: "string \<Rightarrow> request" where
  "request_GET p = \<lparr>Method = ''GET'', Path = p, RemoteAddr = ''127.0.0.1:51234''\<rparr>"

section \<open>Properties of main.go\<close>








lemmas unmarshal_defs =
  Config_UnmarshalYAML_def Config_plain_def andThen_def decodeKey_def keyOr_def finish_def
  checkOverflow_def Server_UnmarshalYAML_def HTTP_UnmarshalYAML_def Cluster_UnmarshalYAML_def
  Cluster_plain_def User_UnmarshalYAML_def ClusterUser_UnmarshalYAML_def
  Replica_UnmarshalYAML_def KillQueryUser_UnmarshalYAML_def Cache_UnmarshalYAML_def
  ParamGroup_UnmarshalYAML_def defaultConfig_def defaultCluster_def
  defaultClusterUser_def zeroConfig_def zeroCluster_def zeroClusterUser_def zeroServer_def
  zeroHTTP_def zeroKillQueryUser_def

lemmas loadFile_defs =
  LoadFile_def setWriteTimeout_def maxResponseTime_def usersLoop_def clustersLoop_def
  clusterUsersLoop_def longer_def Let_def Minute_def Second_def

lemma default_values_load:
  "LoadFile testFiles ''testdata/default_values.yml'' = Inr default_values_cfg"
  by (simp add: testFiles_def default_values_yml_def default_values_cluster_def
      default_values_user_def default_values_cfg_def unmarshal_defs loadFile_defs)

lemma missing_file_load:
  "LoadFile testFiles ''testdata/foobar.yml'' = Inl (ReadFileError ''no such file or directory'')"
  by (simp add: testFiles_def LoadFile_def)

lemma mainStart_example:
  "mainStart testExternals testFiles 0 (testProcess ''testdata/default_values.yml'') =
     Return default_values_cfg startedProcess"
  by (simp add: mainStart_def loadConfig_def default_values_load applyConfig_def logf_def
      testExternals_def testProcess_def default_values_cfg_def startedProcess_def)


text \<open>
  Claim C2. The method dispatch of \<^verbatim>\<open>serveHTTP\<close>. GET and POST go on to the dispatch on
  the path. OPTIONS on a fresh response writer sets the header \<^verbatim>\<open>Allow: GET,POST\<close> and
  nothing else: the body stays empty and the status is the 200 that net/http sends. Any
  other method gets the status 405, the header \<^verbatim>\<open>Connection: close\<close> and a body that
  contains \<^verbatim>\<open>unsupported method\<close> followed by the method as \<^verbatim>\<open>%q\<close> writes it.
\<close>

theorem serveHTTP_method_dispatch:
  "(Method r = ''GET'' \<or> Method r = ''POST'' \<longrightarrow> serveHTTP e r rw w = pathDispatch e r rw w)
 \<and> (Method r = ''OPTIONS'' \<longrightarrow>
      serveHTTP e r newResponseWriter w =
        (newResponseWriter\<lparr>header := [''Allow'' \<mapsto> ''GET,POST'']\<rparr>, w)
      \<and> body (fst (serveHTTP e r newResponseWriter w)) = []
      \<and> statusCode (fst (serveHTTP e r newResponseWriter w)) = 200)
 \<and> (Method r \<noteq> ''GET'' \<and> Method r \<noteq> ''POST'' \<and> Method r \<noteq> ''OPTIONS'' \<longrightarrow>
      statusCode (fst (serveHTTP e r newResponseWriter w)) = 405
      \<and> header (fst (serveHTTP e r newResponseWriter w)) ''Connection'' = Some ''close''
      \<and> sublist (''unsupported method '' @ quote e (Method r))
           (body (fst (serveHTTP e r newResponseWriter w)))
      \<and> snd (serveHTTP e r newResponseWriter w) = w)"
proof -
  have "sublist (''unsupported method '' @ quote e (Method r))
          (quote e (RemoteAddr r) @ '': unsupported method '' @ quote e (Method r))"
    unfolding sublist_def
    by (rule exI [of _ "quote e (RemoteAddr r) @ '': ''"], rule exI [of _ "[]"]) simp
  then show ?thesis
    by (simp add: serveHTTP_def newResponseWriter_def headerSet_def respondWith_def
        statusCode_def StatusMethodNotAllowed_def)
qed

text \<open>
  Claim C3. For a GET or a POST request (any other method is answered by the switch on
  the method before the path is looked at): a path other than \<^verbatim>\<open>/\<close>, \<^verbatim>\<open>/metrics\<close> and
  \<^verbatim>\<open>/favicon.ico\<close> gets the status 400, the header \<^verbatim>\<open>Connection: close\<close> and a body that
  contains \<^verbatim>\<open>unsupported path:\<close> followed by the path as \<^verbatim>\<open>%q\<close> writes it; the path
  \<^verbatim>\<open>/favicon.ico\<close> leaves the fresh response writer untouched, which net/http sends as
  an empty 200 response.
\<close>

theorem serveHTTP_unsupported_path:
  "Method r = ''GET'' \<or> Method r = ''POST'' \<Longrightarrow>
   (Path r \<noteq> ''/'' \<and> Path r \<noteq> ''/metrics'' \<and> Path r \<noteq> ''/favicon.ico'' \<longrightarrow>
      statusCode (fst (serveHTTP e r newResponseWriter w)) = 400
      \<and> header (fst (serveHTTP e r newResponseWriter w)) ''Connection'' = Some ''close''
      \<and> sublist (''unsupported path: '' @ quote e (Path r))
           (body (fst (serveHTTP e r newResponseWriter w))))
 \<and> (Path r = ''/favicon.ico'' \<longrightarrow>
      serveHTTP e r newResponseWriter w = (newResponseWriter, w)
      \<and> statusCode newResponseWriter = 200 \<and> body newResponseWriter = []
      \<and> header newResponseWriter = Map.empty)"
proof -
  assume m: "Method r = ''GET'' \<or> Method r = ''POST''"
  have s: "sublist (''unsupported path: '' @ quote e (Path r))
          (quote e (RemoteAddr r) @ '': unsupported path: '' @ quote e (Path r))"
    unfolding sublist_def
    by (rule exI [of _ "quote e (RemoteAddr r) @ '': ''"], rule exI [of _ "[]"]) simp
  from m have "serveHTTP e r newResponseWriter w = pathDispatch e r newResponseWriter w"
    by (auto simp: serveHTTP_def)
  with s show ?thesis
    by (simp add: pathDispatch_def newResponseWriter_def headerSet_def respondWith_def
        statusCode_def StatusBadRequest_def)
qed

text \<open>The scenarios S1 and S2 of the spec, and a GET that reaches the proxy.\<close>

theorem serveHTTP_method_dispatch_witness:
  "serveHTTP testExternals request_OPTIONS newResponseWriter (testProcess ''c.yml'') =
     (newResponseWriter\<lparr>header := [''Allow'' \<mapsto> ''GET,POST'']\<rparr>, testProcess ''c.yml'')
 \<and> statusCode (fst (serveHTTP testExternals request_CONNECT newResponseWriter (testProcess ''c.yml''))) = 405
 \<and> header (fst (serveHTTP testExternals request_CONNECT newResponseWriter (testProcess ''c.yml'')))
      ''Connection'' = Some ''close''
 \<and> sublist (''unsupported method '' @ [CHR 0x22] @ ''CONNECT'' @ [CHR 0x22])
      (body (fst (serveHTTP testExternals request_CONNECT newResponseWriter (testProcess ''c.yml''))))
 \<and> serveHTTP testExternals (request_GET ''/'') newResponseWriter (testProcess ''c.yml'') =
     (newResponseWriter\<lparr>body := ''Ok.''\<rparr>, testProcess ''c.yml'')"
proof -
  have q: "quote testExternals = dquote" by (simp add: testExternals_def)
  have g: "pathDispatch testExternals (request_GET ''/'') newResponseWriter (testProcess ''c.yml'') =
     (newResponseWriter\<lparr>body := ''Ok.''\<rparr>, testProcess ''c.yml'')"
    by (simp add: pathDispatch_def request_GET_def testExternals_def newResponseWriter_def
        testProcess_def)
  from serveHTTP_method_dispatch [of request_OPTIONS testExternals newResponseWriter "testProcess ''c.yml''"]
    serveHTTP_method_dispatch [of request_CONNECT testExternals newResponseWriter "testProcess ''c.yml''"]
    serveHTTP_method_dispatch [of "request_GET ''/''" testExternals newResponseWriter "testProcess ''c.yml''"]
    g
  show ?thesis
    by (simp add: request_OPTIONS_def request_CONNECT_def request_GET_def q dquote_def)
qed

text \<open>The scenario S3 of the spec, and a request for the favicon.\<close>

theorem serveHTTP_unsupported_path_witness:
  "statusCode (fst (serveHTTP testExternals (request_GET ''/foobar'') newResponseWriter
      (testProcess ''c.yml''))) = 400
 \<and> header (fst (serveHTTP testExternals (request_GET ''/foobar'') newResponseWriter
      (testProcess ''c.yml''))) ''Connection'' = Some ''close''
 \<and> sublist (''unsupported path: '' @ [CHR 0x22] @ ''/foobar'' @ [CHR 0x22])
      (body (fst (serveHTTP testExternals (request_GET ''/foobar'') newResponseWriter
      (testProcess ''c.yml''))))
 \<and> serveHTTP testExternals (request_GET ''/favicon.ico'') newResponseWriter (testProcess ''c.yml'') =
     (newResponseWriter, testProcess ''c.yml'')"
proof -
  have q: "quote testExternals = dquote" by (simp add: testExternals_def)
  from serveHTTP_unsupported_path [of "request_GET ''/foobar''" testExternals "testProcess ''c.yml''"]
    serveHTTP_unsupported_path [of "request_GET ''/favicon.ico''" testExternals "testProcess ''c.yml''"]
  show ?thesis
    by (simp add: request_GET_def q dquote_def)
qed

section \<open>Properties of config.go\<close>

lemma andThen_Inr: "andThen r f = Inr v \<longleftrightarrow> (\<exists>x. r = Inr x \<and> f x = Inr v)"
  by (cases r) (simp_all add: andThen_def)

lemma finish_Inr: "finish r v = Inr v' \<longleftrightarrow> r = None \<and> v' = v"
  by (cases r) (auto simp: finish_def)

lemma decodeSeq_Inr:
  "decodeSeq f xs = Inr ys \<Longrightarrow> list_all2 (\<lambda>x y. f x = Inr y) xs ys"
  by (induction xs arbitrary: ys) (auto split: sum.splits)

lemma decodeSeq_same:
  "(\<And>x y. f x = Inr y \<Longrightarrow> y = x) \<Longrightarrow> decodeSeq f xs = Inr ys \<Longrightarrow> ys = xs"
  by (induction xs arbitrary: ys) (auto split: sum.splits)

lemma decodeSeq_all:
  "(\<And>x. x \<in> set xs \<Longrightarrow> f x = Inr x) \<Longrightarrow> decodeSeq f xs = Inr xs"
  by (induction xs) auto

lemma ClusterUser_same: "ClusterUser_UnmarshalYAML cu = Inr cu' \<Longrightarrow> cu' = cu"
  by (auto simp: ClusterUser_UnmarshalYAML_def finish_Inr split: if_splits)

lemma Replica_same: "Replica_UnmarshalYAML r = Inr r' \<Longrightarrow> r' = r"
  by (auto simp: Replica_UnmarshalYAML_def finish_Inr split: if_splits)

lemma KillQueryUser_same: "KillQueryUser_UnmarshalYAML r = Inr r' \<Longrightarrow> r' = r"
  by (auto simp: KillQueryUser_UnmarshalYAML_def finish_Inr split: if_splits)

lemma decodeKey_seq_same:
  assumes "\<And>x y. f x = Inr y \<Longrightarrow> y = x" and "decodeKey (decodeSeq f) k dflt = Inr ys"
  shows "ys = keyOr k dflt"
proof (cases k)
  case None
  with assms(2) show ?thesis by (simp add: decodeKey_def keyOr_def)
next
  case (Some xs)
  with assms(2) have "decodeSeq f xs = Inr ys" by (simp add: decodeKey_def)
  from decodeSeq_same [of f, OF assms(1) this] Some show ?thesis by (simp add: keyOr_def)
qed

lemma defaultCluster_fields:
  "Cluster.Name defaultCluster = []" "Cluster.Nodes defaultCluster = []"
  "Replicas defaultCluster = []" "ClusterUsers defaultCluster = [defaultClusterUser]"
  "HeartBeatInterval defaultCluster = 0" "Cluster.XXX defaultCluster = []"
  by (simp_all add: defaultCluster_def zeroCluster_def)

lemma Cluster_plain_fields:
  assumes "Cluster_plain n = Inr c"
  shows "Cluster.Name c = keyOr (c_name n) []"
    and "Cluster.Nodes c = keyOr (c_nodes n) []"
    and "Replicas c = keyOr (c_replicas n) []"
    and "ClusterUsers c = keyOr (c_users n) [defaultClusterUser]"
    and "HeartBeatInterval c = keyOr (c_heartbeat_interval n) 0"
    and "Cluster.XXX c = c_unknown n"
proof -
  from assms obtain rs us k where
    rs: "decodeKey (decodeSeq Replica_UnmarshalYAML) (c_replicas n) [] = Inr rs"
    and us: "decodeKey (decodeSeq ClusterUser_UnmarshalYAML) (c_users n) [defaultClusterUser] = Inr us"
    and c: "c = \<lparr>Cluster.Name = keyOr (c_name n) [], Cluster.Nodes = keyOr (c_nodes n) [],
                  Replicas = rs, ClusterUsers = us, KillQueryUser = k,
                  HeartBeatInterval = keyOr (c_heartbeat_interval n) 0,
                  Cluster.XXX = c_unknown n\<rparr>"
    unfolding Cluster_plain_def andThen_Inr defaultCluster_fields by auto
  from decodeKey_seq_same [OF Replica_same rs] decodeKey_seq_same [OF ClusterUser_same us] c
  show "Cluster.Name c = keyOr (c_name n) []"
    and "Cluster.Nodes c = keyOr (c_nodes n) []"
    and "Replicas c = keyOr (c_replicas n) []"
    and "ClusterUsers c = keyOr (c_users n) [defaultClusterUser]"
    and "HeartBeatInterval c = keyOr (c_heartbeat_interval n) 0"
    and "Cluster.XXX c = c_unknown n"
    by simp_all
qed

lemma Cluster_UnmarshalYAML_Inr:
  assumes "Cluster_UnmarshalYAML n = Inr c"
  shows "\<exists>c0. Cluster_plain n = Inr c0
          \<and> c = (if HeartBeatInterval c0 = 0 then c0\<lparr>HeartBeatInterval := 5 * Second\<rparr> else c0)
          \<and> Cluster.Name c0 \<noteq> []
          \<and> (Cluster.Nodes c0 = []) \<noteq> (Replicas c0 = [])
          \<and> ClusterUsers c0 \<noteq> [] \<and> Cluster.XXX c0 = []"
proof -
  from assms obtain c0 where p: "Cluster_plain n = Inr c0"
    and r: "(if Cluster.Name c0 = [] then Inl ClusterNameEmpty
            else if Cluster.Nodes c0 = [] \<and> Replicas c0 = []
              then Inl (NodesOrReplicasUnset (Cluster.Name c0))
            else if Cluster.Nodes c0 \<noteq> [] \<and> Replicas c0 \<noteq> []
              then Inl (NodesAndReplicasSet (Cluster.Name c0))
            else if ClusterUsers c0 = [] then Inl (ClusterUsersEmpty (Cluster.Name c0))
            else
              (let c' = (if HeartBeatInterval c0 = 0
                         then c0\<lparr>HeartBeatInterval := 5 * Second\<rparr> else c0)
               in finish (checkOverflow (Cluster.XXX c') (InCluster (Cluster.Name c'))) c')) = Inr c"
    unfolding Cluster_UnmarshalYAML_def andThen_Inr by blast
  have n: "Cluster.Name c0 \<noteq> []"
  proof
    assume "Cluster.Name c0 = []"
    with r show False by simp
  qed
  have x1: "\<not> (Cluster.Nodes c0 = [] \<and> Replicas c0 = [])"
  proof
    assume "Cluster.Nodes c0 = [] \<and> Replicas c0 = []"
    with r n show False by simp
  qed
  have x2: "\<not> (Cluster.Nodes c0 \<noteq> [] \<and> Replicas c0 \<noteq> [])"
  proof
    assume "Cluster.Nodes c0 \<noteq> [] \<and> Replicas c0 \<noteq> []"
    with r n show False by simp
  qed
  have u: "ClusterUsers c0 \<noteq> []"
  proof
    assume "ClusterUsers c0 = []"
    with r n x1 x2 show False by simp
  qed
  define c' where "c' = (if HeartBeatInterval c0 = 0 then c0\<lparr>HeartBeatInterval := 5 * Second\<rparr> else c0)"
  have xx: "Cluster.XXX c' = Cluster.XXX c0" and nn: "Cluster.Name c' = Cluster.Name c0"
    by (simp_all add: c'_def)
  from r n x1 x2 u have f: "finish (checkOverflow (Cluster.XXX c') (InCluster (Cluster.Name c'))) c' = Inr c"
    unfolding c'_def Let_def by presburger
  then have cc: "c = c'" and o: "checkOverflow (Cluster.XXX c') (InCluster (Cluster.Name c')) = None"
    unfolding finish_Inr by simp_all
  from o have e: "Cluster.XXX c0 = []"
    unfolding xx by (simp add: checkOverflow_def split: if_splits)
  from x1 x2 have x: "(Cluster.Nodes c0 = []) \<noteq> (Replicas c0 = [])" by blast
  from p cc n x u e show ?thesis unfolding c'_def by blast
qed

lemma Cluster_accepted:
  assumes "Cluster_UnmarshalYAML n = Inr c"
  shows "(Cluster.Nodes c = []) \<noteq> (Replicas c = [])" and "ClusterUsers c \<noteq> []"
    and "Cluster.Name c \<noteq> []"
    and "ClusterUsers c = keyOr (c_users n) [defaultClusterUser]"
    and "HeartBeatInterval c =
          (if keyOr (c_heartbeat_interval n) 0 = 0 then 5 * Second
           else keyOr (c_heartbeat_interval n) 0)"
proof -
  from Cluster_UnmarshalYAML_Inr [OF assms] obtain c0 where
    p: "Cluster_plain n = Inr c0"
    and c: "c = (if HeartBeatInterval c0 = 0 then c0\<lparr>HeartBeatInterval := 5 * Second\<rparr> else c0)"
    and n: "Cluster.Name c0 \<noteq> []" and x: "(Cluster.Nodes c0 = []) \<noteq> (Replicas c0 = [])"
    and u: "ClusterUsers c0 \<noteq> []" by blast
  have f: "Cluster.Nodes c = Cluster.Nodes c0" "Replicas c = Replicas c0"
    "ClusterUsers c = ClusterUsers c0" "Cluster.Name c = Cluster.Name c0"
    by (simp_all add: c)
  have h: "HeartBeatInterval c = (if HeartBeatInterval c0 = 0 then 5 * Second else HeartBeatInterval c0)"
    by (simp add: c)
  show "(Cluster.Nodes c = []) \<noteq> (Replicas c = [])" using x by (simp add: f)
  show "ClusterUsers c \<noteq> []" using u by (simp add: f)
  show "Cluster.Name c \<noteq> []" using n by (simp add: f)
  show "ClusterUsers c = keyOr (c_users n) [defaultClusterUser]"
    using Cluster_plain_fields(4) [OF p] by (simp add: f)
  show "HeartBeatInterval c =
          (if keyOr (c_heartbeat_interval n) 0 = 0 then 5 * Second
           else keyOr (c_heartbeat_interval n) 0)"
    using Cluster_plain_fields(5) [OF p] by (simp add: h)
qed

lemma Cluster_rejected:
  assumes "keyOr (c_nodes n) [] \<noteq> [] \<and> keyOr (c_replicas n) [] \<noteq> []
         \<or> keyOr (c_nodes n) [] = [] \<and> keyOr (c_replicas n) [] = []
         \<or> c_users n = Some []"
  shows "\<exists>err. Cluster_UnmarshalYAML n = Inl err"
proof (cases "Cluster_UnmarshalYAML n")
  case (Inl a)
  then show ?thesis by blast
next
  case (Inr c)
  from Cluster_UnmarshalYAML_Inr [OF Inr] obtain c0 where
    p: "Cluster_plain n = Inr c0" and x: "(Cluster.Nodes c0 = []) \<noteq> (Replicas c0 = [])"
    and u: "ClusterUsers c0 \<noteq> []" by blast
  from Cluster_plain_fields [OF p] x u assms show ?thesis by (auto simp: keyOr_def)
qed

lemma Config_plain_clusters:
  assumes "Config_plain d = Inr c"
  shows "case cfg_clusters d of None \<Rightarrow> Clusters c = [defaultCluster]
         | Some ns \<Rightarrow> list_all2 (\<lambda>n c. Cluster_UnmarshalYAML n = Inr c) ns (Clusters c)"
proof -
  from assms obtain cs where
    cs: "decodeKey (decodeSeq Cluster_UnmarshalYAML) (cfg_clusters d) (Clusters defaultConfig) = Inr cs"
    and c: "Clusters c = cs"
    unfolding Config_plain_def andThen_Inr by auto
  show ?thesis
  proof (cases "cfg_clusters d")
    case None
    with cs c show ?thesis by (simp add: decodeKey_def defaultConfig_def zeroConfig_def)
  next
    case (Some ns)
    with cs have "decodeSeq Cluster_UnmarshalYAML ns = Inr cs" by (simp add: decodeKey_def)
    from decodeSeq_Inr [OF this] Some c show ?thesis by simp
  qed
qed

lemma setWriteTimeout_Clusters: "Clusters (setWriteTimeout c) = Clusters c"
  by (simp add: setWriteTimeout_def)

lemma LoadFile_Inr:
  "LoadFile fs f = Inr cfg \<longleftrightarrow>
     (\<exists>d c. fs f = Doc d \<and> Config_UnmarshalYAML d = Inr c \<and> cfg = setWriteTimeout c)"
  by (auto simp: LoadFile_def andThen_Inr split: fileResult.splits)

lemma Config_UnmarshalYAML_Inr:
  "Config_UnmarshalYAML d = Inr c \<longleftrightarrow>
     Config_plain d = Inr c \<and> Users c \<noteq> [] \<and> Clusters c \<noteq> []
     \<and> ListenAddr (HTTP (Server c)) \<noteq> [] \<and> Config.XXX c = []"
proof (cases "Config_plain d")
  case (Inl e)
  then show ?thesis by (simp add: Config_UnmarshalYAML_def andThen_def)
next
  case (Inr c0)
  then show ?thesis
    by (simp add: Config_UnmarshalYAML_def andThen_def finish_def checkOverflow_def) blast
qed

lemma LoadFile_clusters:
  assumes "LoadFile fs f = Inr cfg" "fs f = Doc d" "cfg_clusters d = Some ns"
  shows "list_all2 (\<lambda>n c. Cluster_UnmarshalYAML n = Inr c) ns (Clusters cfg)"
proof -
  from assms obtain c where c: "Config_UnmarshalYAML d = Inr c" "cfg = setWriteTimeout c"
    by (auto simp: LoadFile_Inr)
  then have "Config_plain d = Inr c" by (simp add: Config_UnmarshalYAML_Inr)
  from Config_plain_clusters [OF this] assms(3) c(2) show ?thesis
    by (simp add: setWriteTimeout_Clusters)
qed

lemma applyConfig_applied:
  "applyConfig e cfg w = (r, w') \<Longrightarrow> applied w' = applied w @ [cfg]"
  by (auto simp: applyConfig_def logf_def split: prod.splits option.splits)

lemma loadConfig_Inr:
  assumes "loadConfig fs now w = Return (Inr cfg) w'"
  shows "LoadFile fs (configFile w) = Inr cfg \<and> applied w' = applied w"
proof (cases "configFile w = []")
  case True
  with assms show ?thesis by (simp add: loadConfig_def)
next
  case False
  with assms show ?thesis
    by (cases "LoadFile fs (configFile w)") (auto simp: loadConfig_def)
qed

lemma reloadConfig_applied:
  assumes "reloadConfig e fs now w = Return None w'"
  shows "\<exists>cfg. LoadFile fs (configFile w) = Inr cfg \<and> applied w' = applied w @ [cfg]"
proof (cases "loadConfig fs now w")
  case (Exit w1)
  with assms show ?thesis by (simp add: reloadConfig_def)
next
  case (Return r w1)
  show ?thesis
  proof (cases r)
    case (Inl err)
    with assms Return show ?thesis by (simp add: reloadConfig_def)
  next
    case (Inr cfg)
    with Return have l: "loadConfig fs now w = Return (Inr cfg) w1" by simp
    obtain r' w2 where a: "applyConfig e cfg w1 = (r', w2)" by (cases "applyConfig e cfg w1")
    with assms l have "w' = w2" by (simp add: reloadConfig_def)
    with loadConfig_Inr [OF l] applyConfig_applied [OF a] show ?thesis by simp
  qed
qed

lemma mainStart_applied:
  assumes "mainStart e fs now w = Return cfg w'"
  shows "LoadFile fs (configFile w) = Inr cfg \<and> applied w' = applied w @ [cfg]"
proof -
  let ?w = "logf (InfoLoadingConfig (configFile w)) (logf InfoVersion w)"
  have v: "\<not> version w" using assms by (auto simp: mainStart_def)
  have w: "configFile ?w = configFile w" "applied ?w = applied w" by (simp_all add: logf_def)
  show ?thesis
  proof (cases "loadConfig fs now ?w")
    case (Exit w1)
    with assms v show ?thesis by (simp add: mainStart_def)
  next
    case (Return r w1)
    show ?thesis
    proof (cases r)
      case (Inl err)
      with assms v Return show ?thesis by (simp add: mainStart_def)
    next
      case (Inr cfg1)
      with Return have l: "loadConfig fs now ?w = Return (Inr cfg1) w1" by simp
      obtain r' w2 where a: "applyConfig e cfg1 w1 = (r', w2)" by (cases "applyConfig e cfg1 w1")
      from assms v l a have "cfg = cfg1 \<and> applied w' = applied w2"
        by (cases r') (auto simp: mainStart_def logf_def)
      with loadConfig_Inr [OF l] applyConfig_applied [OF a] w show ?thesis by simp
    qed
  qed
qed

lemma LoadFile_heartbeat:
  assumes "fs f = Doc d" "cfg_clusters d = Some ns" "i < length ns"
    and "c_heartbeat_interval (ns ! i) = None \<or> c_heartbeat_interval (ns ! i) = Some 0"
    and "LoadFile fs f = Inr cfg"
  shows "HeartBeatInterval (Clusters cfg ! i) = 5 * Second"
proof -
  from LoadFile_clusters [OF assms(5) assms(1) assms(2)]
  have l: "list_all2 (\<lambda>n c. Cluster_UnmarshalYAML n = Inr c) ns (Clusters cfg)" .
  with assms(3) have "Cluster_UnmarshalYAML (ns ! i) = Inr (Clusters cfg ! i)"
    by (simp add: list_all2_conv_all_nth)
  from Cluster_accepted(5) [OF this] assms(4) show ?thesis by (auto simp: keyOr_def)
qed

text \<open>
  Claim C8. A cluster of the document whose key \<^verbatim>\<open>heartbeat_interval\<close> is absent or zero
  is loaded with a \<^verbatim>\<open>HeartBeatInterval\<close> of five seconds. The first load (\<open>mainStart\<close>)
  and every reload (\<^verbatim>\<open>reloadConfig\<close>) hand to \<^verbatim>\<open>proxy.applyConfig\<close> exactly what
  \<^verbatim>\<open>LoadFile\<close> returns for the file, so the default is the same in both.
\<close>

theorem heartbeat_interval_default:
  assumes "fs f = Doc d" and "cfg_clusters d = Some ns" and "i < length ns"
    and "c_heartbeat_interval (ns ! i) = None \<or> c_heartbeat_interval (ns ! i) = Some 0"
  shows "(\<forall>cfg. LoadFile fs f = Inr cfg \<longrightarrow> HeartBeatInterval (Clusters cfg ! i) = 5 * Second)
       \<and> (\<forall>w cfg w'. configFile w = f \<and> mainStart e fs t w = Return cfg w' \<longrightarrow>
             LoadFile fs f = Inr cfg \<and> applied w' = applied w @ [cfg]
             \<and> HeartBeatInterval (Clusters (last (applied w')) ! i) = 5 * Second)
       \<and> (\<forall>w w'. configFile w = f \<and> reloadConfig e fs t' w = Return None w' \<longrightarrow>
             (\<exists>cfg. LoadFile fs f = Inr cfg \<and> applied w' = applied w @ [cfg])
             \<and> HeartBeatInterval (Clusters (last (applied w')) ! i) = 5 * Second)"
proof (intro conjI allI impI)
  fix cfg assume "LoadFile fs f = Inr cfg"
  from LoadFile_heartbeat [OF assms this]
  show "HeartBeatInterval (Clusters cfg ! i) = 5 * Second" .
next
  fix w cfg w' assume a: "configFile w = f \<and> mainStart e fs t w = Return cfg w'"
  with mainStart_applied [of e fs t w cfg w']
  have l: "LoadFile fs f = Inr cfg" and p: "applied w' = applied w @ [cfg]" by simp_all
  show "LoadFile fs f = Inr cfg" by (rule l)
  show "applied w' = applied w @ [cfg]" by (rule p)
  from LoadFile_heartbeat [OF assms l] p
  show "HeartBeatInterval (Clusters (last (applied w')) ! i) = 5 * Second" by simp
next
  fix w w' assume a: "configFile w = f \<and> reloadConfig e fs t' w = Return None w'"
  with reloadConfig_applied [of e fs t' w w']
  obtain cfg where l: "LoadFile fs f = Inr cfg" and p: "applied w' = applied w @ [cfg]" by auto
  then show "\<exists>cfg. LoadFile fs f = Inr cfg \<and> applied w' = applied w @ [cfg]" by blast
  from LoadFile_heartbeat [OF assms l] p
  show "HeartBeatInterval (Clusters (last (applied w')) ! i) = 5 * Second" by simp
qed

lemma decodeSeq_Inl:
  "decodeSeq f xs = Inl err \<Longrightarrow> \<exists>x \<in> set xs. f x = Inl err"
  by (induction xs) (auto split: sum.splits)

lemma Replica_error:
  "Replica_UnmarshalYAML r = Inl err \<Longrightarrow> err \<noteq> ClusterUsersEmpty nm"
  by (auto simp: Replica_UnmarshalYAML_def finish_def checkOverflow_def split: if_splits)

lemma defaultClusterUser_valid:
  "ClusterUser_UnmarshalYAML defaultClusterUser = Inr defaultClusterUser"
  by (simp add: ClusterUser_UnmarshalYAML_def defaultClusterUser_def zeroClusterUser_def
      finish_def checkOverflow_def)

lemma Cluster_plain_users_absent:
  assumes "c_users n = None"
  shows "Cluster_plain n = Cluster_plain (n\<lparr>c_users := Some [defaultClusterUser]\<rparr>)"
  using assms
  by (simp add: Cluster_plain_def decodeKey_def defaultCluster_fields defaultClusterUser_valid)

text \<open>
  Claim C10. A cluster node without the key \<^verbatim>\<open>users\<close> is decoded exactly as the same
  node with the one user \<open>defaultClusterUser\<close> listed, so it never fails with
  \<^verbatim>\<open>`cluster.users` must contain at least 1 user\<close>; with a name, nodes and nothing else
  it is accepted and its \<^verbatim>\<open>ClusterUsers\<close> are that single user. The user is named
  \<^verbatim>\<open>default\<close>, with an empty password and every limit zero. When the key is present, an
  accepted cluster has the users of the document instead.
\<close>

theorem default_cluster_user:
  "(c_users n = None \<longrightarrow>
      Cluster_UnmarshalYAML n = Cluster_UnmarshalYAML (n\<lparr>c_users := Some [defaultClusterUser]\<rparr>)
      \<and> (\<forall>nm. Cluster_UnmarshalYAML n \<noteq> Inl (ClusterUsersEmpty nm)))
 \<and> (\<forall>c. Cluster_UnmarshalYAML n = Inr c \<longrightarrow>
      ClusterUsers c = (case c_users n of None \<Rightarrow> [defaultClusterUser] | Some us \<Rightarrow> us))
 \<and> (c_users n = None \<and> keyOr (c_name n) [] \<noteq> [] \<and> keyOr (c_nodes n) [] \<noteq> []
      \<and> c_replicas n = None \<and> c_kill_query_user n = None \<and> c_unknown n = [] \<longrightarrow>
      (\<exists>c. Cluster_UnmarshalYAML n = Inr c \<and> ClusterUsers c = [defaultClusterUser]))
 \<and> defaultClusterUser =
      \<lparr>ClusterUser.Name = ''default'', ClusterUser.Password = [],
       ClusterUser.MaxConcurrentQueries = 0, ClusterUser.MaxExecutionTime = 0,
       ClusterUser.ReqPerMin = 0, ClusterUser.MaxQueueSize = 0, ClusterUser.MaxQueueTime = 0,
       ClusterUser.XXX = []\<rparr>"
proof (intro conjI allI impI)
  assume a: "c_users n = None"
  show "Cluster_UnmarshalYAML n = Cluster_UnmarshalYAML (n\<lparr>c_users := Some [defaultClusterUser]\<rparr>)"
    by (simp add: Cluster_UnmarshalYAML_def Cluster_plain_users_absent [OF a])
  fix nm
  show "Cluster_UnmarshalYAML n \<noteq> Inl (ClusterUsersEmpty nm)"
  proof (cases "Cluster_plain n")
    case (Inl err)
    then have "err \<noteq> ClusterUsersEmpty nm"
      by (auto simp: Cluster_plain_def andThen_def decodeKey_def a KillQueryUser_UnmarshalYAML_def
          finish_def checkOverflow_def
          split: sum.splits option.splits if_splits dest!: decodeSeq_Inl dest: Replica_error)
    with Inl show ?thesis by (simp add: Cluster_UnmarshalYAML_def andThen_def)
  next
    case (Inr c0)
    from Cluster_plain_fields(4) [OF Inr] a have "ClusterUsers c0 \<noteq> []" by (simp add: keyOr_def)
    with Inr show ?thesis
      by (simp add: Cluster_UnmarshalYAML_def andThen_def finish_def checkOverflow_def Let_def)
  qed
next
  fix c assume "Cluster_UnmarshalYAML n = Inr c"
  from Cluster_accepted(4) [OF this]
  show "ClusterUsers c = (case c_users n of None \<Rightarrow> [defaultClusterUser] | Some us \<Rightarrow> us)"
    by (simp add: keyOr_def)
next
  assume a: "c_users n = None \<and> keyOr (c_name n) [] \<noteq> [] \<and> keyOr (c_nodes n) [] \<noteq> []
      \<and> c_replicas n = None \<and> c_kill_query_user n = None \<and> c_unknown n = []"
  then show "\<exists>c. Cluster_UnmarshalYAML n = Inr c \<and> ClusterUsers c = [defaultClusterUser]"
    by (simp add: Cluster_UnmarshalYAML_def Cluster_plain_def andThen_def decodeKey_def
        defaultCluster_fields finish_def checkOverflow_def Let_def)
next
  show "defaultClusterUser =
      \<lparr>ClusterUser.Name = ''default'', ClusterUser.Password = [],
       ClusterUser.MaxConcurrentQueries = 0, ClusterUser.MaxExecutionTime = 0,
       ClusterUser.ReqPerMin = 0, ClusterUser.MaxQueueSize = 0, ClusterUser.MaxQueueTime = 0,
       ClusterUser.XXX = []\<rparr>"
    by (simp add: defaultClusterUser_def zeroClusterUser_def)
qed

lemma sint_Minute: "sint Minute = 60000000000"
  by (simp add: Minute_def Second_def)

lemma sint_add_nowrap:
  fixes a b :: Duration
  assumes "0 \<le> sint a + sint b" "sint a + sint b < 2 ^ 63"
  shows "sint (a + b) = sint a + sint b"
proof -
  have "sint (a + b) = signed_take_bit (LENGTH(64) - 1) (sint a + sint b)"
    by (rule sint_word_add)
  also have "\<dots> = sint a + sint b"
    using assms by (intro signed_take_bit_int_eq_self) simp_all
  finally show ?thesis .
qed

lemma longerAll_simps [simp]:
  "longerAll m [] = m" "longerAll m (p # ps) = longerAll (longer m (fst p) (snd p)) ps"
  "longerAll m (ps @ qs) = longerAll (longerAll m ps) qs"
  by (simp_all add: longerAll_def)

lemma usersLoop_longerAll:
  "usersLoop m us = longerAll m (map (\<lambda>u. (User.MaxExecutionTime u, User.MaxQueueTime u)) us)"
  by (simp add: usersLoop_def longerAll_def foldl_map)

lemma clusterUsersLoop_longerAll:
  "clusterUsersLoop m us =
     longerAll m (map (\<lambda>u. (ClusterUser.MaxExecutionTime u, ClusterUser.MaxQueueTime u)) us)"
  by (simp add: clusterUsersLoop_def longerAll_def foldl_map)

lemma clustersLoop_longerAll:
  "clustersLoop m cs =
     longerAll m (concat (map (\<lambda>c. map (\<lambda>u. (ClusterUser.MaxExecutionTime u,
       ClusterUser.MaxQueueTime u)) (ClusterUsers c)) cs))"
proof (induction cs arbitrary: m)
  case Nil
  then show ?case by (simp add: clustersLoop_def)
next
  case (Cons c cs)
  have "clustersLoop m (c # cs) = clustersLoop (clusterUsersLoop m (ClusterUsers c)) cs"
    by (simp add: clustersLoop_def)
  then show ?case by (simp add: Cons.IH clusterUsersLoop_longerAll)
qed

lemma loops_longerAll:
  "usersLoop (clustersLoop 0 (Clusters cfg)) (Users cfg) = longerAll 0 (timePairs cfg)"
  by (simp add: usersLoop_longerAll clustersLoop_longerAll timePairs_def)

lemma longer_sint:
  assumes "0 \<le> sint m" and "inRange (a, b)"
  shows "sint (longer m a b) = max (sint m) (sint a + sint b)"
proof -
  from assms(2) have "sint (a + b) = sint a + sint b"
    by (intro sint_add_nowrap) (simp_all add: inRange_def)
  then show ?thesis by (simp add: longer_def Let_def word_sless_alt max_def)
qed

lemma Max_insert_max:
  fixes S :: "int set"
  assumes "finite S"
  shows "Max (insert (max a b) S) = Max (insert a (insert b S))"
proof (cases "S = {}")
  case True
  then show ?thesis by (simp add: max.commute)
next
  case False
  with assms show ?thesis by (simp add: max.assoc)
qed

lemma longerAll_sint:
  assumes "0 \<le> sint m" and "\<forall>p \<in> set ps. inRange p"
  shows "sint (longerAll m ps) = Max (insert (sint m) (set (map (\<lambda>p. sint (fst p) + sint (snd p)) ps)))"
  using assms
proof (induction ps arbitrary: m)
  case Nil
  then show ?case by simp
next
  case (Cons p ps)
  from Cons.prems have r: "inRange (fst p, snd p)" by simp
  from longer_sint [OF Cons.prems(1) r]
  have l: "sint (longer m (fst p) (snd p)) = max (sint m) (sint (fst p) + sint (snd p))" .
  with Cons.prems(1) have "0 \<le> sint (longer m (fst p) (snd p))" by simp
  from Cons.IH [OF this] Cons.prems(2)
  have "sint (longerAll m (p # ps)) =
          Max (insert (max (sint m) (sint (fst p) + sint (snd p)))
                 (set (map (\<lambda>p. sint (fst p) + sint (snd p)) ps)))"
    by (simp add: l)
  also have "\<dots> = Max (insert (sint m) (insert (sint (fst p) + sint (snd p))
                 (set (map (\<lambda>p. sint (fst p) + sint (snd p)) ps))))"
    by (rule Max_insert_max) simp
  finally show ?case by simp
qed

lemma Max_insert_0:
  fixes S :: "int set"
  assumes "finite S" "S \<noteq> {}" "\<forall>x \<in> S. 0 \<le> x"
  shows "Max (insert 0 S) = Max S"
proof -
  from assms have "0 \<le> Max S" by (meson Max_ge_iff all_not_in_conv)
  with assms show ?thesis by (simp add: max_def)
qed

lemma maxResponseTime_sint:
  assumes "timePairs cfg \<noteq> []" and "\<forall>p \<in> set (timePairs cfg). inRange p"
  shows "sint (maxResponseTime cfg) = 60000000000 + Max (set (responseTimes cfg))"
proof -
  let ?S = "set (responseTimes cfg)"
  let ?m = "longerAll 0 (timePairs cfg)"
  have s: "sint ?m = Max (insert 0 ?S)"
    using longerAll_sint [of 0 "timePairs cfg"] assms(2) by (simp add: responseTimes_def)
  have nn: "\<forall>x \<in> ?S. 0 \<le> x" using assms(2) by (auto simp: responseTimes_def inRange_def)
  have ne: "?S \<noteq> {}" using assms(1) by (simp add: responseTimes_def)
  from Max_insert_0 [OF _ ne nn] s have m: "sint ?m = Max ?S" by simp
  have "Max ?S \<in> ?S" using ne by (intro Max_in) simp_all
  then obtain p where p: "p \<in> set (timePairs cfg)" "Max ?S = sint (fst p) + sint (snd p)"
    by (auto simp: responseTimes_def)
  with assms(2) have b: "0 \<le> Max ?S" "Max ?S + 60000000000 < 2 ^ 63"
    by (auto simp: inRange_def)
  from m b have "\<not> ?m <s 0" by (simp add: word_sless_alt)
  then have "maxResponseTime cfg = ?m + Minute"
    by (simp add: maxResponseTime_def loops_longerAll Let_def)
  moreover have "sint (?m + Minute) = sint ?m + sint Minute"
    using m b by (intro sint_add_nowrap) (simp_all add: sint_Minute)
  ultimately show ?thesis using m by (simp add: sint_Minute)
qed

lemma HTTP_UnmarshalYAML_Inr:
  assumes "HTTP_UnmarshalYAML hn = Inr h"
  shows "ListenAddr h = keyOr (http_listen_addr hn) []"
    and "ReadTimeout (TimeoutCfg h) =
           (if keyOr (http_read_timeout hn) 0 = 0 then Minute else keyOr (http_read_timeout hn) 0)"
    and "IdleTimeout (TimeoutCfg h) =
           (if keyOr (http_idle_timeout hn) 0 = 0 then Minute * 10 else keyOr (http_idle_timeout hn) 0)"
    and "WriteTimeout (TimeoutCfg h) = keyOr (http_write_timeout hn) 0"
  using assms by (auto simp: HTTP_UnmarshalYAML_def Let_def finish_Inr)

lemma zero_listen: "ListenAddr zeroHTTP = []" "HTTP zeroServer = zeroHTTP"
  "Server defaultConfig = zeroServer"
  by (simp_all add: zeroHTTP_def zeroServer_def defaultConfig_def zeroConfig_def)

lemma Server_UnmarshalYAML_Inr:
  assumes "Server_UnmarshalYAML sn = Inr s" and "ListenAddr (HTTP s) \<noteq> []"
  shows "\<exists>hn. srv_http sn = Some hn \<and> HTTP_UnmarshalYAML hn = Inr (HTTP s)"
proof -
  from assms(1) obtain h where
    h: "decodeKey HTTP_UnmarshalYAML (srv_http sn) zeroHTTP = Inr h" and s: "HTTP s = h"
    unfolding Server_UnmarshalYAML_def andThen_Inr Let_def finish_Inr by auto
  show ?thesis
  proof (cases "srv_http sn")
    case None
    with h s assms(2) show ?thesis by (simp add: decodeKey_def zero_listen)
  next
    case (Some hn)
    with h s show ?thesis by (simp add: decodeKey_def)
  qed
qed

lemma Config_accepted_http:
  assumes "Config_UnmarshalYAML d = Inr c"
  shows "\<exists>sn hn. cfg_server d = Some sn \<and> srv_http sn = Some hn
           \<and> HTTP_UnmarshalYAML hn = Inr (HTTP (Server c))"
proof -
  from assms have p: "Config_plain d = Inr c" and l: "ListenAddr (HTTP (Server c)) \<noteq> []"
    by (simp_all add: Config_UnmarshalYAML_Inr)
  from p obtain s where
    s: "decodeKey Server_UnmarshalYAML (cfg_server d) (Server defaultConfig) = Inr s"
    and c: "Server c = s"
    unfolding Config_plain_def andThen_Inr by auto
  show ?thesis
  proof (cases "cfg_server d")
    case None
    with s c l show ?thesis by (simp add: decodeKey_def zero_listen)
  next
    case (Some sn)
    with s c have "Server_UnmarshalYAML sn = Inr (Server c)" by (simp add: decodeKey_def)
    from Server_UnmarshalYAML_Inr [OF this l] Some show ?thesis by simp
  qed
qed

lemma setWriteTimeout_fields:
  "Users (setWriteTimeout c) = Users c"
  "ListenAddr (HTTP (Server (setWriteTimeout c))) = ListenAddr (HTTP (Server c))"
  "ReadTimeout (TimeoutCfg (HTTP (Server (setWriteTimeout c)))) =
     ReadTimeout (TimeoutCfg (HTTP (Server c)))"
  "IdleTimeout (TimeoutCfg (HTTP (Server (setWriteTimeout c)))) =
     IdleTimeout (TimeoutCfg (HTTP (Server c)))"
  "WriteTimeout (TimeoutCfg (HTTP (Server (setWriteTimeout c)))) =
     (if ListenAddr (HTTP (Server c)) \<noteq> [] \<and> WriteTimeout (TimeoutCfg (HTTP (Server c))) = 0
      then maxResponseTime c else WriteTimeout (TimeoutCfg (HTTP (Server c))))"
  "timePairs (setWriteTimeout c) = timePairs c"
  by (simp_all add: setWriteTimeout_def timePairs_def)

lemma sint_eq_Minute: "sint (x :: Duration) = 60000000000 \<Longrightarrow> x = Minute"
proof -
  assume "sint x = 60000000000"
  then have "sint x = sint Minute" by (simp add: sint_Minute)
  then show ?thesis by (rule signed_word_eqI)
qed

text \<open>
  Claim C9, as amended. Let \<^verbatim>\<open>LoadFile\<close> accept a document whose pairs
  \<^verbatim>\<open>(MaxExecutionTime, MaxQueueTime)\<close> are all in range (non-negative, the sum plus one
  minute below \<open>2^63\<close> nanoseconds). Then the document has a \<^verbatim>\<open>server.http\<close> node and,
  when its \<^verbatim>\<open>write_timeout\<close> is absent or zero, \<^verbatim>\<open>WriteTimeout\<close> is one minute plus the
  maximum of \<^verbatim>\<open>MaxExecutionTime + MaxQueueTime\<close> over all cluster users and users (one
  minute when all these are zero); otherwise it is the value of the document.
  \<^verbatim>\<open>ReadTimeout\<close> and \<^verbatim>\<open>IdleTimeout\<close> are one minute and ten minutes when absent or
  zero in the document, and the values of the document otherwise.
\<close>

theorem write_timeout_default:
  assumes "fs f = Doc d" and "LoadFile fs f = Inr cfg"
    and "\<forall>p \<in> set (timePairs cfg). inRange p"
  shows "\<exists>sn hn. cfg_server d = Some sn \<and> srv_http sn = Some hn
     \<and> ReadTimeout (TimeoutCfg (HTTP (Server cfg))) =
         (if keyOr (http_read_timeout hn) 0 = 0 then Minute else keyOr (http_read_timeout hn) 0)
     \<and> IdleTimeout (TimeoutCfg (HTTP (Server cfg))) =
         (if keyOr (http_idle_timeout hn) 0 = 0 then 10 * Minute
          else keyOr (http_idle_timeout hn) 0)
     \<and> (if keyOr (http_write_timeout hn) 0 = 0
         then sint (WriteTimeout (TimeoutCfg (HTTP (Server cfg)))) =
                60000000000 + Max (set (responseTimes cfg))
              \<and> ((\<forall>t \<in> set (responseTimes cfg). t = 0) \<longrightarrow>
                   WriteTimeout (TimeoutCfg (HTTP (Server cfg))) = Minute)
         else WriteTimeout (TimeoutCfg (HTTP (Server cfg))) = keyOr (http_write_timeout hn) 0)"
proof -
  from assms(1,2) obtain c where c: "Config_UnmarshalYAML d = Inr c" "cfg = setWriteTimeout c"
    by (auto simp: LoadFile_Inr)
  from Config_accepted_http [OF c(1)] obtain sn hn where
    n: "cfg_server d = Some sn" "srv_http sn = Some hn"
    and h: "HTTP_UnmarshalYAML hn = Inr (HTTP (Server c))" by blast
  note f = HTTP_UnmarshalYAML_Inr [OF h]
  from c(1) have l: "ListenAddr (HTTP (Server c)) \<noteq> []" and u: "Users c \<noteq> []"
    by (simp_all add: Config_UnmarshalYAML_Inr)
  from u have ne: "timePairs c \<noteq> []" by (simp add: timePairs_def)
  from assms(3) have r: "\<forall>p \<in> set (timePairs c). inRange p"
    by (simp add: c(2) setWriteTimeout_fields)
  have rt: "responseTimes cfg = responseTimes c"
    by (simp add: responseTimes_def c(2) setWriteTimeout_fields)
  have m: "sint (maxResponseTime c) = 60000000000 + Max (set (responseTimes cfg))"
    using maxResponseTime_sint [OF ne r] by (simp add: rt)
  have z: "(\<forall>t \<in> set (responseTimes cfg). t = 0) \<longrightarrow> maxResponseTime c = Minute"
  proof
    assume a: "\<forall>t \<in> set (responseTimes cfg). t = 0"
    from ne have "responseTimes cfg \<noteq> []" unfolding rt by (simp add: responseTimes_def)
    then have h: "hd (responseTimes cfg) \<in> set (responseTimes cfg)" by simp
    with a have "hd (responseTimes cfg) = 0" by blast
    with h have "0 \<in> set (responseTimes cfg)" by simp
    with a have "set (responseTimes cfg) = {0}" by blast
    with m have "sint (maxResponseTime c) = 60000000000" by simp
    then show "maxResponseTime c = Minute" by (rule sint_eq_Minute)
  qed
  have w: "if keyOr (http_write_timeout hn) 0 = 0
         then sint (WriteTimeout (TimeoutCfg (HTTP (Server cfg)))) =
                60000000000 + Max (set (responseTimes cfg))
              \<and> ((\<forall>t \<in> set (responseTimes cfg). t = 0) \<longrightarrow>
                   WriteTimeout (TimeoutCfg (HTTP (Server cfg))) = Minute)
         else WriteTimeout (TimeoutCfg (HTTP (Server cfg))) = keyOr (http_write_timeout hn) 0"
    using l m z f(4) by (simp add: c(2) setWriteTimeout_fields)
  have rd: "ReadTimeout (TimeoutCfg (HTTP (Server cfg))) =
         (if keyOr (http_read_timeout hn) 0 = 0 then Minute else keyOr (http_read_timeout hn) 0)"
    using f(2) by (simp add: c(2) setWriteTimeout_fields)
  have id: "IdleTimeout (TimeoutCfg (HTTP (Server cfg))) =
         (if keyOr (http_idle_timeout hn) 0 = 0 then 10 * Minute
          else keyOr (http_idle_timeout hn) 0)"
    using f(3) by (simp add: c(2) setWriteTimeout_fields mult.commute)
  from n rd id w show ?thesis by blast
qed

subsection \<open>The test documents\<close>

lemma calculated_load:
  "LoadFile testFiles ''testdata/timeouts.write.calculated.yml'' = Inr calculated_cfg"
  by (simp add: testFiles_def calculated_yml_def calculated_user_def calculated_cfg_def
      default_values_yml_def default_values_cluster_def
      default_values_user_def default_values_cfg_def unmarshal_defs loadFile_defs word_sless_alt)

lemma overflow_load: "LoadFile testFiles ''overflow.yml'' = Inr overflow_cfg"
  by (simp add: testFiles_def overflow_yml_def overflow_user_def overflow_cfg_def weeks7626_def
      default_values_yml_def default_values_cluster_def
      default_values_user_def default_values_cfg_def unmarshal_defs loadFile_defs word_sless_alt)

lemma no_clusters_load: "LoadFile testFiles ''no_clusters.yml'' = Inr no_clusters_cfg"
  by (simp add: testFiles_def no_clusters_yml_def no_clusters_cfg_def
      default_values_yml_def default_values_cluster_def
      default_values_user_def default_values_cfg_def unmarshal_defs loadFile_defs word_sless_alt)

lemma reload_example:
  "reloadConfig testExternals testFiles 5 startedProcess = Return None reloadedProcess"
  by (simp add: reloadConfig_def loadConfig_def default_values_load applyConfig_def logf_def
      testExternals_def testProcess_def default_values_cfg_def startedProcess_def
      reloadedProcess_def)


text \<open>The cluster of \<open>default_values_yml\<close> has no \<^verbatim>\<open>heartbeat_interval\<close>: five seconds
  at the start and after a reload, as \<^verbatim>\<open>TestLoadConfig\<close> expects.\<close>

theorem heartbeat_interval_default_witness:
  "LoadFile testFiles ''testdata/default_values.yml'' = Inr default_values_cfg
 \<and> c_heartbeat_interval default_values_cluster = None
 \<and> HeartBeatInterval (Clusters default_values_cfg ! 0) = 5000000000
 \<and> mainStart testExternals testFiles 0 (testProcess ''testdata/default_values.yml'') =
       Return default_values_cfg startedProcess
 \<and> HeartBeatInterval (Clusters (last (applied startedProcess)) ! 0) = 5000000000
 \<and> reloadConfig testExternals testFiles 5 startedProcess = Return None reloadedProcess
 \<and> HeartBeatInterval (Clusters (last (applied reloadedProcess)) ! 0) = 5000000000"
proof -
  have d: "testFiles ''testdata/default_values.yml'' = Doc default_values_yml"
    by (simp add: testFiles_def)
  have c: "cfg_clusters default_values_yml = Some [default_values_cluster]"
    by (simp add: default_values_yml_def)
  have i: "0 < length [default_values_cluster]" by simp
  have h: "c_heartbeat_interval ([default_values_cluster] ! 0) = None
         \<or> c_heartbeat_interval ([default_values_cluster] ! 0) = Some 0"
    by (simp add: default_values_cluster_def)
  have f1: "configFile (testProcess ''testdata/default_values.yml'') = ''testdata/default_values.yml''"
    by (simp add: testProcess_def)
  have f2: "configFile startedProcess = ''testdata/default_values.yml''"
    by (simp add: startedProcess_def testProcess_def)
  note t = heartbeat_interval_default
    [where fs = testFiles and f = "''testdata/default_values.yml''" and e = testExternals
       and t = 0 and t' = 5, OF d c i h]
  from t default_values_load
  have a: "HeartBeatInterval (Clusters default_values_cfg ! 0) = 5 * Second" by blast
  from t f1 mainStart_example
  have b: "HeartBeatInterval (Clusters (last (applied startedProcess)) ! 0) = 5 * Second" by blast
  from t f2 reload_example
  have e: "HeartBeatInterval (Clusters (last (applied reloadedProcess)) ! 0) = 5 * Second" by blast
  have s: "5 * Second = 5000000000" by (simp add: Second_def)
  from a b e default_values_load mainStart_example reload_example show ?thesis
    by (simp add: s default_values_cluster_def)
qed

text \<open>The cluster of \<open>default_values_yml\<close> has no \<^verbatim>\<open>users\<close>.\<close>

theorem default_cluster_user_witness:
  "c_users default_values_cluster = None
 \<and> Cluster_UnmarshalYAML default_values_cluster = Inr (hd (Clusters default_values_cfg))
 \<and> ClusterUsers (hd (Clusters default_values_cfg)) = [defaultClusterUser]
 \<and> Cluster_UnmarshalYAML default_values_cluster =
     Cluster_UnmarshalYAML (default_values_cluster\<lparr>c_users := Some [defaultClusterUser]\<rparr>)
 \<and> ClusterUser.Name defaultClusterUser = ''default''"
proof -
  have u: "c_users default_values_cluster = None" by (simp add: default_values_cluster_def)
  have l: "Cluster_UnmarshalYAML default_values_cluster = Inr (hd (Clusters default_values_cfg))"
    by (simp add: default_values_cluster_def default_values_cfg_def unmarshal_defs Let_def)
  from default_cluster_user [of default_values_cluster] u l show ?thesis
    by (simp add: defaultClusterUser_def)
qed

text \<open>The cases "calculated write 1" and "default" of \<^verbatim>\<open>TestConfigTimeouts\<close>.\<close>

theorem write_timeout_default_witness:
  "LoadFile testFiles ''testdata/timeouts.write.calculated.yml'' = Inr calculated_cfg
 \<and> list_all inRange (timePairs calculated_cfg)
 \<and> responseTimes calculated_cfg = [0, 600000000000]
 \<and> sint (WriteTimeout (TimeoutCfg (HTTP (Server calculated_cfg)))) = 660000000000
 \<and> WriteTimeout (TimeoutCfg (HTTP (Server calculated_cfg))) = 11 * 60 * Second
 \<and> ReadTimeout (TimeoutCfg (HTTP (Server calculated_cfg))) = Minute
 \<and> IdleTimeout (TimeoutCfg (HTTP (Server calculated_cfg))) = 10 * Minute
 \<and> LoadFile testFiles ''testdata/default_values.yml'' = Inr default_values_cfg
 \<and> responseTimes default_values_cfg = [0, 0]
 \<and> WriteTimeout (TimeoutCfg (HTTP (Server default_values_cfg))) = Minute"
proof -
  have d: "testFiles ''testdata/timeouts.write.calculated.yml'' = Doc calculated_yml"
    by (simp add: testFiles_def)
  have d0: "testFiles ''testdata/default_values.yml'' = Doc default_values_yml"
    by (simp add: testFiles_def)
  have tp: "timePairs calculated_cfg = [(0, 0), (10 * Minute, 0)]"
    by (simp add: timePairs_def calculated_cfg_def calculated_user_def default_values_cfg_def
        default_values_user_def zeroClusterUser_def)
  have tp0: "timePairs default_values_cfg = [(0, 0), (0, 0)]"
    by (simp add: timePairs_def default_values_cfg_def default_values_user_def
        zeroClusterUser_def)
  have r: "\<forall>p \<in> set (timePairs calculated_cfg). inRange p"
    by (simp add: tp inRange_def Minute_def Second_def)
  have r0: "\<forall>p \<in> set (timePairs default_values_cfg). inRange p"
    by (simp add: tp0 inRange_def)
  have rt: "responseTimes calculated_cfg = [0, 600000000000]"
    by (simp add: responseTimes_def tp Minute_def Second_def)
  have rt0: "responseTimes default_values_cfg = [0, 0]"
    by (simp add: responseTimes_def tp0)
  have k: "cfg_server calculated_yml = cfg_server default_values_yml"
    by (simp add: calculated_yml_def)
  from write_timeout_default
    [where fs = testFiles and f = "''testdata/timeouts.write.calculated.yml''",
     OF d calculated_load r]
  have a: "sint (WriteTimeout (TimeoutCfg (HTTP (Server calculated_cfg)))) = 660000000000
         \<and> ReadTimeout (TimeoutCfg (HTTP (Server calculated_cfg))) = Minute
         \<and> IdleTimeout (TimeoutCfg (HTTP (Server calculated_cfg))) = 10 * Minute"
    by (auto simp: k default_values_yml_def keyOr_def rt)
  from write_timeout_default
    [where fs = testFiles and f = "''testdata/default_values.yml''",
     OF d0 default_values_load r0]
  have b: "WriteTimeout (TimeoutCfg (HTTP (Server default_values_cfg))) = Minute"
    by (auto simp: default_values_yml_def keyOr_def rt0)
  have w: "WriteTimeout (TimeoutCfg (HTTP (Server calculated_cfg))) = 11 * 60 * Second"
    by (simp add: calculated_cfg_def Minute_def)
  from a b w r rt rt0 calculated_load default_values_load show ?thesis
    by (simp add: list_all_iff)
qed

text \<open>
  Claim C9 as stated fails where the sum wraps. With \<^verbatim>\<open>max_execution_time: 7626w\<close> and
  \<^verbatim>\<open>max_queue_time: 7626w\<close> the sum is negative as an \<^verbatim>\<open>int64\<close>, the test
  \<^verbatim>\<open>cud > maxResponseTime\<close> fails and \<^verbatim>\<open>WriteTimeout\<close> is one minute: neither one
  minute plus the sum of the two durations, nor one minute plus the wrapped sum.
\<close>

theorem write_timeout_overflow:
  "LoadFile testFiles ''overflow.yml'' = Inr overflow_cfg
 \<and> timePairs overflow_cfg = [(0, 0), (weeks7626, weeks7626)]
 \<and> sint weeks7626 = 4612204800000000000
 \<and> responseTimes overflow_cfg = [0, 9224409600000000000]
 \<and> WriteTimeout (TimeoutCfg (HTTP (Server overflow_cfg))) = Minute
 \<and> sint (WriteTimeout (TimeoutCfg (HTTP (Server overflow_cfg)))) = 60000000000
 \<and> sint (WriteTimeout (TimeoutCfg (HTTP (Server overflow_cfg)))) \<noteq>
       60000000000 + Max (set (responseTimes overflow_cfg))
 \<and> WriteTimeout (TimeoutCfg (HTTP (Server overflow_cfg))) \<noteq>
       Minute + (weeks7626 + weeks7626)"
proof -
  have tp: "timePairs overflow_cfg = [(0, 0), (weeks7626, weeks7626)]"
    by (simp add: timePairs_def overflow_cfg_def overflow_user_def default_values_cfg_def
        default_values_user_def zeroClusterUser_def)
  have s: "sint weeks7626 = 4612204800000000000"
    by (simp add: weeks7626_def Minute_def Second_def)
  have rt: "responseTimes overflow_cfg = [0, 9224409600000000000]"
    by (simp add: responseTimes_def tp s)
  have w: "WriteTimeout (TimeoutCfg (HTTP (Server overflow_cfg))) = Minute"
    by (simp add: overflow_cfg_def default_values_cfg_def)
  have n: "Minute \<noteq> Minute + (weeks7626 + weeks7626)"
    by (simp add: weeks7626_def Minute_def Second_def)
  from overflow_load tp s rt w n show ?thesis by (simp add: sint_Minute)
qed

text \<open>
  Claim C7 at a document without the key \<^verbatim>\<open>clusters\<close>. \<^verbatim>\<open>Config.UnmarshalYAML\<close> starts
  from \<open>defaultConfig\<close>, whose \<^verbatim>\<open>Clusters\<close> is the one \<open>defaultCluster\<close>; the absent key
  leaves it there, \<^verbatim>\<open>Cluster.UnmarshalYAML\<close> never sees it and the test
  \<^verbatim>\<open>len(c.Clusters) == 0\<close> passes. \<^verbatim>\<open>LoadFile\<close> accepts the document with a cluster that
  has neither nodes nor replicas (and no name, and a zero heartbeat interval). For the
  clusters that the document does list, \<open>LoadFile_clusters\<close>, \<open>Cluster_accepted\<close> and
  \<open>Cluster_rejected\<close> above give what the claim says.
\<close>

theorem missing_clusters_key_accepted:
  "cfg_clusters no_clusters_yml = None
 \<and> LoadFile testFiles ''no_clusters.yml'' = Inr no_clusters_cfg
 \<and> Clusters no_clusters_cfg = [defaultCluster]
 \<and> Cluster.Name defaultCluster = []
 \<and> Cluster.Nodes defaultCluster = []
 \<and> Replicas defaultCluster = []
 \<and> HeartBeatInterval defaultCluster = 0"
  using no_clusters_load
  by (simp add: no_clusters_yml_def no_clusters_cfg_def defaultCluster_fields)

section \<open>Properties of the duration texts\<close>

lemma isDigit_digitChar: "n < 10 \<Longrightarrow> isDigit (digitChar n)"
  by (simp add: isDigit_def digitChar_def)

lemma digitVal_digitChar: "n < 10 \<Longrightarrow> digitVal (digitChar n) = n"
  by (simp add: digitVal_def digitChar_def)

lemma showNat_digits: "list_all isDigit (showNat n)"
proof (induction n rule: showNat.induct)
  case (1 n)
  show ?case
  proof (cases "n < 10")
    case True
    then show ?thesis by (subst showNat.simps) (simp add: isDigit_digitChar)
  next
    case False
    with 1 show ?thesis by (subst showNat.simps) (simp add: isDigit_digitChar)
  qed
qed

lemma showNat_nonempty: "showNat n \<noteq> []"
  by (subst showNat.simps) simp

lemma natOfDigits_snoc: "natOfDigits (ds @ [c]) = 10 * natOfDigits ds + digitVal c"
  by (simp add: natOfDigits_def)

lemma natOfDigits_showNat: "natOfDigits (showNat n) = n"
proof (induction n rule: showNat.induct)
  case (1 n)
  show ?case
  proof (cases "n < 10")
    case True
    then show ?thesis
      by (subst showNat.simps) (simp add: natOfDigits_def digitVal_digitChar)
  next
    case False
    with 1 have "natOfDigits (showNat (n div 10)) = n div 10" by simp
    with False show ?thesis
      by (subst showNat.simps) (simp add: natOfDigits_snoc digitVal_digitChar)
  qed
qed

lemma unit_props:
  assumes "(u, k) \<in> set durationUnits"
  shows "u \<noteq> []" and "\<not> isDigit (hd u)" and "map_of durationUnits u = Some k" and "0 < k"
  using assms by (auto simp: durationUnits_def isDigit_def)

lemma split_digits:
  assumes "list_all isDigit ds" and "u = [] \<or> \<not> isDigit (hd u)"
  shows "takeWhile isDigit (ds @ u) = ds" and "dropWhile isDigit (ds @ u) = u"
proof -
  from assms(2) have t: "takeWhile isDigit u = []" and d: "dropWhile isDigit u = u"
    by (cases u; simp)+
  from assms(1) have a: "\<And>x. x \<in> set ds \<Longrightarrow> isDigit x" by (simp add: list_all_iff)
  show "takeWhile isDigit (ds @ u) = ds" by (simp add: takeWhile_append2 [OF a] t)
  show "dropWhile isDigit (ds @ u) = u" by (simp add: dropWhile_append2 [OF a] d)
qed

lemma parseDuration_grammar:
  assumes "ds \<noteq> []" and "list_all isDigit ds" and "(u, k) \<in> set durationUnits"
  shows "parseDuration (ds @ u) = Inr (int (natOfDigits ds) * k)"
proof -
  from unit_props(2) [OF assms(3)] have "u = [] \<or> \<not> isDigit (hd u)" by simp
  from split_digits [OF assms(2) this] assms(1) unit_props(3) [OF assms(3)]
  show ?thesis by (simp add: parseDuration_def)
qed

lemma parseDuration_Inr:
  assumes "parseDuration s = Inr d"
  shows "\<exists>k. takeWhile isDigit s \<noteq> []
           \<and> (dropWhile isDigit s, k) \<in> set durationUnits
           \<and> d = int (natOfDigits (takeWhile isDigit s)) * k"
proof -
  from assms have n: "takeWhile isDigit s \<noteq> []"
    by (auto simp: parseDuration_def Let_def split: if_splits)
  with assms obtain k where k: "map_of durationUnits (dropWhile isDigit s) = Some k"
    and d: "d = int (natOfDigits (takeWhile isDigit s)) * k"
    by (auto simp: parseDuration_def Let_def split: option.splits)
  from map_of_SomeD [OF k] n d show ?thesis by blast
qed

lemma parseDuration_Inl: "parseDuration s = Inl err \<Longrightarrow> err = NotValidDuration s"
  by (auto simp: parseDuration_def Let_def split: if_splits option.splits)

lemma grammar_iff_parse: "durationGrammar s \<longleftrightarrow> (\<exists>d. parseDuration s = Inr d)"
proof
  assume "durationGrammar s"
  then obtain ds u where a: "ds \<noteq> []" "list_all isDigit ds" "u \<in> fst ` set durationUnits"
    and s: "s = ds @ u"
    unfolding durationGrammar_def by blast
  from a(3) obtain k where "(u, k) \<in> set durationUnits" by auto
  from parseDuration_grammar [OF a(1) a(2) this] s show "\<exists>d. parseDuration s = Inr d" by blast
next
  assume "\<exists>d. parseDuration s = Inr d"
  then obtain d where "parseDuration s = Inr d" ..
  from parseDuration_Inr [OF this] obtain k where
    n: "takeWhile isDigit s \<noteq> []" and u: "(dropWhile isDigit s, k) \<in> set durationUnits" by blast
  have "list_all isDigit (takeWhile isDigit s)"
    by (auto simp: list_all_iff dest: set_takeWhileD)
  moreover from u have "dropWhile isDigit s \<in> fst ` set durationUnits" by force
  moreover have "s = takeWhile isDigit s @ dropWhile isDigit s" by simp
  ultimately show "durationGrammar s" unfolding durationGrammar_def using n by blast
qed

text \<open>
  Claim C4. \<^verbatim>\<open>parseDuration\<close> succeeds exactly on the texts of the grammar: digits
  directly followed by one of the units ns, \<open>\<mu>\<close>s, ms, s, m, h, d, w. On every other text
  it returns the error \<^verbatim>\<open>not a valid duration string\<close> with that text. The value is the
  number times the unit, a day being 24 hours and a week 7 days.
\<close>

theorem parseDuration_accepts_grammar:
  "(durationGrammar s \<longleftrightarrow> (\<exists>d. parseDuration s = Inr d))
 \<and> (\<not> durationGrammar s \<longrightarrow> parseDuration s = Inl (NotValidDuration s))
 \<and> (\<forall>ds u k. ds \<noteq> [] \<and> list_all isDigit ds \<and> (u, k) \<in> set durationUnits \<longrightarrow>
        parseDuration (ds @ u) = Inr (int (natOfDigits ds) * k))
 \<and> fst ` set durationUnits =
      {''ns'', [CHR 0xC2, CHR 0xB5, CHR ''s''], ''ms'', ''s'', ''m'', ''h'', ''d'', ''w''}
 \<and> (\<forall>n. parseDuration (showNat n @ ''d'') = parseDuration (showNat (24 * n) @ ''h''))
 \<and> (\<forall>n. parseDuration (showNat n @ ''w'') = parseDuration (showNat (7 * n) @ ''d''))"
proof (intro conjI allI impI)
  show "durationGrammar s \<longleftrightarrow> (\<exists>d. parseDuration s = Inr d)" by (rule grammar_iff_parse)
next
  assume "\<not> durationGrammar s"
  then have "\<nexists>d. parseDuration s = Inr d" by (simp add: grammar_iff_parse)
  then obtain err where "parseDuration s = Inl err" by (cases "parseDuration s") auto
  with parseDuration_Inl [OF this] show "parseDuration s = Inl (NotValidDuration s)" by simp
next
  fix ds u k
  assume "ds \<noteq> [] \<and> list_all isDigit ds \<and> (u, k) \<in> set durationUnits"
  then show "parseDuration (ds @ u) = Inr (int (natOfDigits ds) * k)"
    by (simp add: parseDuration_grammar)
next
  show "fst ` set durationUnits =
      {''ns'', [CHR 0xC2, CHR 0xB5, CHR ''s''], ''ms'', ''s'', ''m'', ''h'', ''d'', ''w''}"
    by (simp add: durationUnits_def)
next
  fix n
  have d: "(''d'', 24 * 3600000000000) \<in> set durationUnits"
    and h: "(''h'', 3600000000000) \<in> set durationUnits"
    by (simp_all add: durationUnits_def)
  show "parseDuration (showNat n @ ''d'') = parseDuration (showNat (24 * n) @ ''h'')"
    by (simp add: parseDuration_grammar [OF showNat_nonempty showNat_digits d]
        parseDuration_grammar [OF showNat_nonempty showNat_digits h] natOfDigits_showNat)
next
  fix n
  have d: "(''d'', 24 * 3600000000000) \<in> set durationUnits"
    and w: "(''w'', 7 * (24 * 3600000000000)) \<in> set durationUnits"
    by (simp_all add: durationUnits_def)
  show "parseDuration (showNat n @ ''w'') = parseDuration (showNat (7 * n) @ ''d'')"
    by (simp add: parseDuration_grammar [OF showNat_nonempty showNat_digits d]
        parseDuration_grammar [OF showNat_nonempty showNat_digits w] natOfDigits_showNat)
qed

lemma find_SomeD: "find P xs = Some x \<Longrightarrow> x \<in> set xs \<and> P x"
  by (induction xs) (auto split: if_splits)

lemma find_unit:
  "\<exists>p. find (\<lambda>p. d mod snd p = 0) (rev durationUnits) = Some p
       \<and> p \<in> set durationUnits \<and> d mod snd p = 0"
proof (cases "find (\<lambda>p. d mod snd p = 0) (rev durationUnits)")
  case None
  have m: "(''ns'', 1) \<in> set (rev durationUnits)" by (simp add: durationUnits_def)
  from None [unfolded find_None_iff] have "\<not> (''ns'', 1) \<in> set (rev durationUnits)"
    by (rule contrapos_nn) (rule exI [of _ "(''ns'', 1)"], simp)
  with m show ?thesis by simp
next
  case (Some p)
  from find_SomeD [OF this] have "p \<in> set durationUnits" and "d mod snd p = 0" by simp_all
  with Some show ?thesis by (intro exI [of _ p]) simp
qed

lemma String_parse:
  assumes "0 \<le> d"
  shows "parseDuration (Duration_String d) = Inr d"
proof -
  from find_unit [of d] obtain u k where
    f: "find (\<lambda>p. d mod snd p = 0) (rev durationUnits) = Some (u, k)"
    and m: "(u, k) \<in> set durationUnits" and z: "d mod k = 0"
    by (cases "the (find (\<lambda>p. d mod snd p = 0) (rev durationUnits))") auto
  from unit_props(4) [OF m] assms have nn: "0 \<le> d div k" by (simp add: pos_imp_zdiv_nonneg_iff)
  then have s: "Duration_String d = showNat (nat (d div k)) @ u"
    by (simp add: Duration_String_def f showInt_def)
  from z have "d div k * k = d" by (simp add: dvd_div_mult_self mod_eq_0_iff_dvd)
  with nn parseDuration_grammar [OF showNat_nonempty showNat_digits m, of "nat (d div k)"]
  show ?thesis by (simp add: s natOfDigits_showNat)
qed

lemma find_split:
  "\<forall>p \<in> set ys. \<not> P p \<Longrightarrow> P x \<Longrightarrow> find P (ys @ x # zs) = Some x"
  by (induction ys) auto

lemma units_decreasing: "sorted_wrt (\<lambda>p q. snd q < snd p) (rev durationUnits)"
  by (simp add: durationUnits_def)

lemma String_canonical:
  assumes "(u, k) \<in> set durationUnits"
    and "\<forall>p \<in> set durationUnits. k < snd p \<longrightarrow> (int n * k) mod snd p \<noteq> 0"
  shows "Duration_String (int n * k) = showNat n @ u"
proof -
  from assms(1) have "(u, k) \<in> set (rev durationUnits)" by simp
  from split_list [OF this] obtain ys zs where r: "rev durationUnits = ys @ (u, k) # zs"
    by blast
  from units_decreasing [unfolded r sorted_wrt_append]
  have "\<forall>p \<in> set ys. \<forall>q \<in> set ((u, k) # zs). snd q < snd p" by (rule conjunct2 [THEN conjunct2])
  then have big: "\<forall>p \<in> set ys. k < snd p" by simp
  have "set (rev durationUnits) = set ys \<union> set ((u, k) # zs)" unfolding r by (rule set_append)
  then have sub: "\<forall>p \<in> set ys. p \<in> set durationUnits" by simp
  have "\<forall>p \<in> set ys. \<not> (int n * k) mod snd p = 0"
  proof
    fix p assume p: "p \<in> set ys"
    from big p have b: "k < snd p" by (rule bspec)
    from sub p have "p \<in> set durationUnits" by (rule bspec)
    with assms(2) have "k < snd p \<longrightarrow> (int n * k) mod snd p \<noteq> 0" by (rule bspec)
    then show "\<not> (int n * k) mod snd p = 0" using b by (rule mp)
  qed
  moreover have "(int n * k) mod snd (u, k) = 0" by simp
  ultimately have f: "find (\<lambda>p. (int n * k) mod snd p = 0) (ys @ (u, k) # zs) = Some (u, k)"
    by (rule find_split)
  from unit_props(4) [OF assms(1)] have d: "int n * k div k = int n" by simp
  have "Duration_String (int n * k) = showInt (int n * k div k) @ u"
    unfolding Duration_String_def r f by simp
  then show ?thesis unfolding d by (simp add: showInt_def)
qed

lemma parseDuration_nonneg: "parseDuration s = Inr d \<Longrightarrow> 0 \<le> d"
proof -
  assume "parseDuration s = Inr d"
  from parseDuration_Inr [OF this] obtain k where
    k: "(dropWhile isDigit s, k) \<in> set durationUnits"
    and d: "d = int (natOfDigits (takeWhile isDigit s)) * k" by blast
  from unit_props(4) [OF k] show ?thesis unfolding d by simp
qed

text \<open>
  Claim C5, as amended. For every accepted text, what \<^verbatim>\<open>Duration.String\<close> prints for the
  parsed value is again an accepted text and parses to the same value. It is the text
  itself when the text is a numeral without leading zeros followed by the largest unit
  that divides the value.
\<close>

theorem duration_roundtrip:
  "(\<forall>d. parseDuration s = Inr d \<longrightarrow>
       durationGrammar (Duration_String d) \<and> parseDuration (Duration_String d) = Inr d)
 \<and> (\<forall>u k n. (u, k) \<in> set durationUnits
        \<and> (\<forall>p \<in> set durationUnits. k < snd p \<longrightarrow> (int n * k) mod snd p \<noteq> 0) \<longrightarrow>
       parseDuration (showNat n @ u) = Inr (int n * k)
       \<and> Duration_String (int n * k) = showNat n @ u)"
proof (intro conjI allI impI)
  fix d assume p: "parseDuration s = Inr d"
  from String_parse [OF parseDuration_nonneg [OF p]]
  show r: "parseDuration (Duration_String d) = Inr d" .
  then show "durationGrammar (Duration_String d)" unfolding grammar_iff_parse by blast
next
  fix u k n
  assume a: "(u, k) \<in> set durationUnits
        \<and> (\<forall>p \<in> set durationUnits. k < snd p \<longrightarrow> (int n * k) mod snd p \<noteq> 0)"
  then have m: "(u, k) \<in> set durationUnits" by (rule conjunct1)
  from parseDuration_grammar [OF showNat_nonempty showNat_digits m, of n]
  show "parseDuration (showNat n @ u) = Inr (int n * k)" by (simp add: natOfDigits_showNat)
  from a show "Duration_String (int n * k) = showNat n @ u"
    by (intro String_canonical) simp_all
qed

text \<open>
  Claim C5 as stated fails: \<^verbatim>\<open>24h\<close> and \<^verbatim>\<open>1d\<close> are both accepted and parse to the same
  value, so no printer returns both; the model prints \<^verbatim>\<open>1d\<close>. A leading zero is lost in
  the same way.
\<close>

theorem duration_format_not_identity:
  "parseDuration ''24h'' = Inr 86400000000000
 \<and> Duration_String 86400000000000 = ''1d''
 \<and> Duration_String 86400000000000 \<noteq> ''24h''
 \<and> parseDuration ''1d'' = parseDuration ''24h''
 \<and> parseDuration ''010s'' = Inr 10000000000
 \<and> Duration_String 10000000000 = ''10s''"
  by code_simp

text \<open>The text \<^verbatim>\<open>24h\<close> round-trips as a value, the text \<^verbatim>\<open>60h\<close> of the test also as a
  text.\<close>

theorem duration_roundtrip_witness:
  "parseDuration ''24h'' = Inr 86400000000000
 \<and> parseDuration (Duration_String 86400000000000) = Inr 86400000000000
 \<and> durationGrammar (Duration_String 86400000000000)
 \<and> (''h'', 3600000000000) \<in> set durationUnits
 \<and> showNat 60 = ''60''
 \<and> parseDuration ''60h'' = Inr 216000000000000
 \<and> Duration_String 216000000000000 = ''60h''"
proof -
  have p: "parseDuration ''24h'' = Inr 86400000000000" by code_simp
  have m: "(''h'', 3600000000000) \<in> set durationUnits" by (simp add: durationUnits_def)
  have c: "\<forall>p \<in> set durationUnits. 3600000000000 < snd p \<longrightarrow>
             (int 60 * 3600000000000) mod snd p \<noteq> 0"
    by (simp add: durationUnits_def)
  have s: "showNat 60 = ''60''" by code_simp
  have i: "int 60 * 3600000000000 = 216000000000000" by simp
  from duration_roundtrip [of "''24h''"] p
  have a: "parseDuration (Duration_String 86400000000000) = Inr 86400000000000
         \<and> durationGrammar (Duration_String 86400000000000)" by blast
  from duration_roundtrip [of "''24h''"] m c
  have b: "parseDuration (showNat 60 @ ''h'') = Inr (int 60 * 3600000000000)
         \<and> Duration_String (int 60 * 3600000000000) = showNat 60 @ ''h''" by blast
  from a b p m show ?thesis unfolding s i by simp
qed

text \<open>The inputs of \<^verbatim>\<open>TestParseDuration\<close> and \<^verbatim>\<open>TestParseDurationNegative\<close>.\<close>

theorem parseDuration_accepts_grammar_witness:
  "parseDuration ''10ns'' = Inr 10
 \<and> parseDuration [CHR ''2'', CHR ''0'', CHR 0xC2, CHR 0xB5, CHR ''s''] = Inr 20000
 \<and> parseDuration ''30ms'' = Inr 30000000
 \<and> parseDuration ''40s'' = Inr 40000000000
 \<and> parseDuration ''50m'' = Inr 3000000000000
 \<and> parseDuration ''60h'' = Inr 216000000000000
 \<and> parseDuration ''75d'' = Inr 6480000000000000
 \<and> parseDuration ''80w'' = Inr 48384000000000000
 \<and> durationGrammar ''80w''
 \<and> parseDuration ''10'' = Inl (NotValidDuration ''10'')
 \<and> parseDuration ''20ks'' = Inl (NotValidDuration ''20ks'')
 \<and> parseDuration ''30Ms'' = Inl (NotValidDuration ''30Ms'')
 \<and> parseDuration ''40 ms'' = Inl (NotValidDuration ''40 ms'')
 \<and> parseDuration ''50y'' = Inl (NotValidDuration ''50y'')
 \<and> parseDuration ''1.5h'' = Inl (NotValidDuration ''1.5h'')
 \<and> \<not> durationGrammar ''1.5h''"
proof -
  have e: "parseDuration ''10ns'' = Inr 10
 \<and> parseDuration [CHR ''2'', CHR ''0'', CHR 0xC2, CHR 0xB5, CHR ''s''] = Inr 20000
 \<and> parseDuration ''30ms'' = Inr 30000000
 \<and> parseDuration ''40s'' = Inr 40000000000
 \<and> parseDuration ''50m'' = Inr 3000000000000
 \<and> parseDuration ''60h'' = Inr 216000000000000
 \<and> parseDuration ''75d'' = Inr 6480000000000000
 \<and> parseDuration ''80w'' = Inr 48384000000000000
 \<and> parseDuration ''10'' = Inl (NotValidDuration ''10'')
 \<and> parseDuration ''20ks'' = Inl (NotValidDuration ''20ks'')
 \<and> parseDuration ''30Ms'' = Inl (NotValidDuration ''30Ms'')
 \<and> parseDuration ''40 ms'' = Inl (NotValidDuration ''40 ms'')
 \<and> parseDuration ''50y'' = Inl (NotValidDuration ''50y'')
 \<and> parseDuration ''1.5h'' = Inl (NotValidDuration ''1.5h'')"
    by code_simp
  from parseDuration_accepts_grammar [of "''80w''"] e
  have a: "durationGrammar ''80w''" by simp
  from parseDuration_accepts_grammar [of "''1.5h''"] e
  have b: "\<not> durationGrammar ''1.5h''" by simp
  from e a b show ?thesis by simp
qed

section \<open>Caches\<close>

text \<open>
  \<^verbatim>\<open>Cache.UnmarshalYAML\<close> accepts no cache whose \<^verbatim>\<open>MaxSize\<close> is zero or negative, and
  \<^verbatim>\<open>LoadFile\<close> fails on a document that lists such a cache.
\<close>

lemma Cache_accepted: "Cache_UnmarshalYAML c = Inr c' \<Longrightarrow> 0 < MaxSize c'"
  by (auto simp: Cache_UnmarshalYAML_def finish_Inr split: if_splits)

lemma Cache_rejected: "MaxSize c \<le> 0 \<Longrightarrow> \<exists>err. Cache_UnmarshalYAML c = Inl err"
  by (simp add: Cache_UnmarshalYAML_def)

lemma Cache_same: "Cache_UnmarshalYAML c = Inr c' \<Longrightarrow> c' = c"
  by (auto simp: Cache_UnmarshalYAML_def finish_Inr split: if_splits)

lemma Config_plain_caches:
  assumes "Config_plain d = Inr c" and "cfg_caches d = Some cs"
  shows "Caches c = cs \<and> (\<forall>x \<in> set cs. 0 < MaxSize x)"
proof -
  from assms(1) obtain cas where
    cs: "decodeKey (decodeSeq Cache_UnmarshalYAML) (cfg_caches d) (Caches defaultConfig) = Inr cas"
    and c: "Caches c = cas"
    unfolding Config_plain_def andThen_Inr by auto
  from cs assms(2) have s: "decodeSeq Cache_UnmarshalYAML cs = Inr cas" by (simp add: decodeKey_def)
  from decodeSeq_same [of Cache_UnmarshalYAML, OF Cache_same s] have e: "cas = cs" .
  from decodeSeq_Inr [OF s] have "list_all2 (\<lambda>x y. Cache_UnmarshalYAML x = Inr y) cs cs"
    unfolding e .
  then have "\<forall>x \<in> set cs. Cache_UnmarshalYAML x = Inr x"
    by (simp add: list_all2_same)
  with c e show ?thesis by (auto dest: Cache_accepted)
qed

lemma LoadFile_negative_cache:
  assumes "fs f = Doc d" and "cfg_caches d = Some cs" and "\<exists>c \<in> set cs. MaxSize c \<le> 0"
  shows "\<exists>err. LoadFile fs f = Inl err"
proof (cases "LoadFile fs f")
  case (Inl err)
  then show ?thesis by blast
next
  case (Inr cfg)
  with assms(1) obtain c where "Config_UnmarshalYAML d = Inr c" by (auto simp: LoadFile_Inr)
  then have "Config_plain d = Inr c" by (simp add: Config_UnmarshalYAML_Inr)
  from Config_plain_caches [OF this assms(2)] assms(3) show ?thesis by force
qed

end
